theory Spec2Isabelle
  imports Main
begin

section \<open>JavaScript values\<close>

text \<open>
  The bot of \<^verbatim>\<open>src/index.js\<close> handles JSON payloads: the body of
  \<^verbatim>\<open>POST /reply\<close>, the answer of the token endpoint, the body posted to
  the webhook. A value is what \<^verbatim>\<open>JSON.parse\<close> can return, and
  \<^verbatim>\<open>undefined\<close> for a property that is not there. An object is the list
  of its own properties; a key is looked up from the front of the list. Numbers are
  integers: the code only ever tests a number for being zero.
\<close>

datatype jsval =
    JUndefined
  | JNull
  | JBool bool
  | JNum int
  | JStr string
  | JArr "jsval list"
  | JObj "(string \<times> jsval) list"

text \<open>
  What the code throws or a promise rejects with. \<^verbatim>\<open>err.message\<close> is the
  string carried.
\<close>

datatype js_error = Error string | TypeError string | SyntaxError string

fun message :: "js_error \<Rightarrow> string" where
  "message (Error m) = m"
| "message (TypeError m) = m"
| "message (SyntaxError m) = m"

text \<open>\<^verbatim>\<open>!v\<close> is \<open>\<not> truthy v\<close>: arrays and objects are truthy, also when empty.\<close>

fun truthy :: "jsval \<Rightarrow> bool" where
  "truthy JUndefined = False"
| "truthy JNull = False"
| "truthy (JBool b) = b"
| "truthy (JNum n) = (n \<noteq> 0)"
| "truthy (JStr s) = (s \<noteq> [])"
| "truthy (JArr xs) = True"
| "truthy (JObj fs) = True"

text \<open>\<^verbatim>\<open>a || b\<close>\<close>

definition js_or :: "jsval \<Rightarrow> jsval \<Rightarrow> jsval" where
  "js_or a b = (if truthy a then a else b)"

text \<open>
  \<^verbatim>\<open>v.k\<close> for the property names the code reads (\<^verbatim>\<open>data\<close>,
  \<^verbatim>\<open>from\<close>, \<^verbatim>\<open>reply\<close>, \<^verbatim>\<open>imageUrl\<close>, \<^verbatim>\<open>caption\<close>,
  \<^verbatim>\<open>access_token\<close>, \<^verbatim>\<open>error_description\<close>, \<^verbatim>\<open>secure_url\<close>):
  none of them is inherited from a prototype, so on an object it is the own property or
  \<^verbatim>\<open>undefined\<close>, and on a number, boolean, string or array it is
  \<^verbatim>\<open>undefined\<close>.
\<close>

fun own_prop :: "jsval \<Rightarrow> string \<Rightarrow> jsval" where
  "own_prop (JObj fs) k = (case map_of fs k of None \<Rightarrow> JUndefined | Some v \<Rightarrow> v)"
| "own_prop v k = JUndefined"

text \<open>
  On \<^verbatim>\<open>null\<close> and \<^verbatim>\<open>undefined\<close> the read throws a TypeError (the
  message is the one V8 prints).
\<close>

definition get_prop :: "jsval \<Rightarrow> string \<Rightarrow> js_error + jsval" where
  "get_prop v k =
     (case v of
        JUndefined \<Rightarrow>
          Inl (TypeError (''Cannot read properties of undefined (reading '' @ [CHR 0x27] @ k @ [CHR 0x27] @ '')''))
      | JNull \<Rightarrow>
          Inl (TypeError (''Cannot read properties of null (reading '' @ [CHR 0x27] @ k @ [CHR 0x27] @ '')''))
      | _ \<Rightarrow> Inr (own_prop v k))"

text \<open>
  The conversion of a value to a string (ToString of ECMA-262), as a template literal
  applies it. A primitive always converts. An array converts as \<^verbatim>\<open>join\<close> does:
  its elements converted and separated by commas, \<^verbatim>\<open>null\<close> and
  \<^verbatim>\<open>undefined\<close> giving the empty string. An object of JSON holds no function:
  when it has an own property \<^verbatim>\<open>toString\<close>, that property is not callable,
  \<^verbatim>\<open>valueOf\<close> (its own, not callable, or the inherited one, which returns the
  object) gives no primitive either, and the conversion throws a TypeError (the message
  is V8's); without it the inherited \<^verbatim>\<open>toString\<close> answers
  \<^verbatim>\<open>[object Object]\<close>.
\<close>

fun ToString :: "(int \<Rightarrow> string) \<Rightarrow> jsval \<Rightarrow> js_error + string"
  and join :: "(int \<Rightarrow> string) \<Rightarrow> jsval list \<Rightarrow> js_error + string" where
  "ToString num JUndefined = Inr ''undefined''"
| "ToString num JNull = Inr ''null''"
| "ToString num (JBool b) = Inr (if b then ''true'' else ''false'')"
| "ToString num (JNum n) = Inr (num n)"
| "ToString num (JStr s) = Inr s"
| "ToString num (JArr xs) = join num xs"
| "ToString num (JObj fs) =
     (if map_of fs ''toString'' = None then Inr ''[object Object]''
      else Inl (TypeError ''Cannot convert object to primitive value''))"
| "join num [] = Inr ''''"
| "join num (x # xs) =
     (case (if x = JUndefined \<or> x = JNull then Inr '''' else ToString num x) of
        Inl err \<Rightarrow> Inl err
      | Inr s \<Rightarrow>
          (if xs = [] then Inr s
           else (case join num xs of Inl err \<Rightarrow> Inl err | Inr t \<Rightarrow> Inr (s @ '','' @ t))))"

section \<open>The world outside\<close>

text \<open>
  \<^verbatim>\<open>MessageMedia\<close> of whatsapp-web.js: what \<^verbatim>\<open>MessageMedia.fromUrl\<close>
  and \<^verbatim>\<open>msg.downloadMedia\<close> give.
\<close>

record MessageMedia =
  mimetype :: string
  data :: string

text \<open>The second argument of \<^verbatim>\<open>client.sendMessage\<close>: a media object or the reply.\<close>

datatype content = Media MessageMedia | Plain jsval

text \<open>
  The third argument of \<^verbatim>\<open>client.sendMessage\<close>: not given, or an object
  literal (\<^verbatim>\<open>{}\<close> is \<open>Options []\<close>).
\<close>

datatype send_options = NoOptions | Options "(string \<times> jsval) list"

text \<open>
  Every call that leaves the process, in the order issued. A call is recorded when it is
  issued, whether it then succeeds or fails. \<open>TokenPost uri grant assertion\<close> is the
  form-encoded POST to the token endpoint, \<open>CloudinaryUpload file options\<close> the upload,
  \<open>WebhookPost url body\<close> the JSON POST to the webhook, \<open>FromUrl url unsafeMime\<close>
  the fetch of an image, \<open>SendMessage to content options\<close> a send through the session.
\<close>

datatype call =
    TokenPost string string string
  | DownloadMedia
  | CloudinaryUpload string "(string \<times> string) list"
  | WebhookPost jsval jsval
  | FromUrl jsval bool
  | SendMessage jsval content send_options

text \<open>What goes to the console, one constructor for each call site that the model covers.\<close>

datatype log =
    LogQrScan string
  | LogQrUploaded string jsval
  | LogTokenFailure jsval
  | LogMessage jsval jsval jsval jsval
  | LogWebhookMedia int
  | LogWebhookText int
  | LogWebhookError js_error
  | LogReplyPayload string jsval
  | LogGallery string nat string
  | LogReplyError string string

record world =
  calls :: "call list"
  console :: "log list"

definition issue :: "call \<Rightarrow> world \<Rightarrow> world" where
  "issue c w = w\<lparr>calls := calls w @ [c]\<rparr>"

definition console_log :: "log \<Rightarrow> world \<Rightarrow> world" where
  "console_log l w = w\<lparr>console := console w @ [l]\<rparr>"

text \<open>
  The inbound message of whatsapp-web.js, with the properties the handler reads. The
  sender, the recipient and the body are strings there and the timestamp a number, so
  the log line of line 114 converts them without throwing.
\<close>

record wa_message =
  msg_from :: jsval
  msg_to :: jsval
  msg_body :: jsval
  msg_caption :: jsval
  msg_timestamp :: jsval
  fromMe :: bool
  hasMedia :: bool

text \<open>\<^verbatim>\<open>serviceAccount\<close>, lines 27 to 34, read from the environment.\<close>

record service_account =
  private_key :: string
  client_email :: jsval

definition token_uri :: string where
  "token_uri = ''https://oauth2.googleapis.com/token''"

text \<open>The claim set signed in \<^verbatim>\<open>getAccessToken\<close>, lines 38 to 45.\<close>

record jwt_payload =
  iss :: jsval
  sub :: jsval
  aud :: string
  iat :: int
  exp :: int
  scope :: string

text \<open>
  The collaborators are parameters: the runtime's \<^verbatim>\<open>JSON.parse\<close>,
  \<^verbatim>\<open>JSON.stringify\<close>, printing of numbers and clock, the configuration, and
  the libraries and services the bot calls. An outbound call answers from the calls
  issued before it, so the same URL may resolve once and fail the next time.
  \<open>token_fetch\<close> is the \<^verbatim>\<open>fetch\<close> of the token endpoint followed by
  \<^verbatim>\<open>response.json()\<close>; \<open>webhook_fetch\<close> gives the status of the answer;
  \<open>settles_first\<close> says which of the rejections of promises awaited together is the
  first in time (its index, taken modulo their number).
\<close>

record env =
  JSON_parse :: "string \<Rightarrow> js_error + jsval"
  JSON_stringify :: "jsval \<Rightarrow> string"
  Number_toString :: "int \<Rightarrow> string"
  settles_first :: "call list \<Rightarrow> js_error list \<Rightarrow> nat"
  Date_now :: "call list \<Rightarrow> int"
  toISOString :: "call list \<Rightarrow> string"
  serviceAccount :: service_account
  WEBHOOK_URL :: jsval
  jwt_sign :: "jwt_payload \<Rightarrow> string \<Rightarrow> js_error + string"
  token_fetch :: "call list \<Rightarrow> string \<Rightarrow> string \<Rightarrow> string \<Rightarrow> js_error + jsval"
  toDataURL :: "string \<Rightarrow> js_error + string"
  cloudinary_upload :: "call list \<Rightarrow> string \<Rightarrow> (string \<times> string) list \<Rightarrow> js_error + jsval"
  downloadMedia :: "call list \<Rightarrow> wa_message \<Rightarrow> js_error + MessageMedia option"
  webhook_fetch :: "call list \<Rightarrow> jsval \<Rightarrow> jsval \<Rightarrow> js_error + int"
  fromUrl :: "call list \<Rightarrow> jsval \<Rightarrow> bool \<Rightarrow> js_error + MessageMedia"
  sendMessage :: "call list \<Rightarrow> jsval \<Rightarrow> content \<Rightarrow> send_options \<Rightarrow> js_error option"

section \<open>The access token\<close>

text \<open>A template literal \<^verbatim>\<open>${v}\<close>: the string of \<open>v\<close>, or what its conversion throws.\<close>

definition template :: "env \<Rightarrow> jsval \<Rightarrow> js_error + string" where
  "template e v = ToString (Number_toString e) v"

text \<open>A value is printable when its conversion to a string does not throw.\<close>

definition printable :: "env \<Rightarrow> jsval \<Rightarrow> bool" where
  "printable e v = (case template e v of Inl err \<Rightarrow> False | Inr s \<Rightarrow> True)"

text \<open>
  Lines 61 to 66, on the parsed answer \<^verbatim>\<open>data\<close> of the token endpoint:
  \<^verbatim>\<open>if (!data.access_token) {
    console.error('Gagal ambil access token:', data);
    throw new Error(`Gagal ambil access token: ${data.error_description || JSON.stringify(data)}`);
  }
  return data.access_token;\<close>
\<close>

definition check_access_token :: "env \<Rightarrow> jsval \<Rightarrow> world \<Rightarrow> world \<times> (js_error + jsval)" where
  "check_access_token e d w =
     (case get_prop d ''access_token'' of
        Inl err \<Rightarrow> (w, Inl err)
      | Inr tok \<Rightarrow>
          (if \<not> truthy tok then
             (console_log (LogTokenFailure d) w,
              case template e (js_or (own_prop d ''error_description'') (JStr (JSON_stringify e d))) of
                Inl err \<Rightarrow> Inl err
              | Inr s \<Rightarrow> Inl (Error (''Gagal ambil access token: '' @ s)))
           else (w, Inr tok)))"

definition grant_type :: string where
  "grant_type = ''urn:ietf:params:oauth:grant-type:jwt-bearer''"

text \<open>The object \<^verbatim>\<open>payload\<close> of lines 38 to 45, for the second \<open>now\<close>.\<close>

definition claim_set :: "env \<Rightarrow> int \<Rightarrow> jwt_payload" where
  "claim_set e now =
     \<lparr>iss = client_email (serviceAccount e), sub = client_email (serviceAccount e),
      aud = token_uri, iat = now, exp = now + 3600,
      scope = ''https://www.googleapis.com/auth/datastore''\<rparr>"

text \<open>
  \<^verbatim>\<open>getAccessToken()\<close>, lines 36 to 67: \<^verbatim>\<open>Math.floor(Date.now() / 1000)\<close>,
  the signature, the POST to the token endpoint, and the check of its answer.
\<close>

definition getAccessToken :: "env \<Rightarrow> world \<Rightarrow> world \<times> (js_error + jsval)" where
  "getAccessToken e w =
     (case jwt_sign e (claim_set e (Date_now e (calls w) div 1000)) (private_key (serviceAccount e)) of
        Inl err \<Rightarrow> (w, Inl err)
      | Inr jwtToken \<Rightarrow>
          (case token_fetch e (calls w) token_uri grant_type jwtToken of
             Inl err \<Rightarrow> (issue (TokenPost token_uri grant_type jwtToken) w, Inl err)
           | Inr d \<Rightarrow>
               check_access_token e d (issue (TokenPost token_uri grant_type jwtToken) w)))"

section \<open>The pairing code\<close>

text \<open>
  The listener that \<^verbatim>\<open>setupQR(client, label)\<close> registers for the
  \<^verbatim>\<open>qr\<close> event, lines 84 to 93. It is an \<^verbatim>\<open>async\<close> function with
  no \<^verbatim>\<open>try\<close>: \<open>Some err\<close> is the rejection of the promise it returns.
\<close>

definition setupQR :: "env \<Rightarrow> string \<Rightarrow> string \<Rightarrow> world \<Rightarrow> world \<times> js_error option" where
  "setupQR e label qr w =
     (let w0 = console_log (LogQrScan label) w in
      case toDataURL e qr of
        Inl err \<Rightarrow> (w0, Some err)
      | Inr url \<Rightarrow>
          (let options = [(''folder'', ''whatsapp_qrcodes''), (''public_id'', ''qr_'' @ label),
                          (''resource_type'', ''image'')];
               w1 = issue (CloudinaryUpload url options) w0
           in case cloudinary_upload e (calls w0) url options of
                Inl err \<Rightarrow> (w1, Some err)
              | Inr result \<Rightarrow>
                  (case get_prop result ''secure_url'' of
                     Inl err \<Rightarrow> (w1, Some err)
                   | Inr secure_url \<Rightarrow> (console_log (LogQrUploaded label secure_url) w1, None))))"

section \<open>The inbound relay\<close>

text \<open>
  \<^verbatim>\<open>JSON.stringify\<close> of an object literal leaves out the properties whose
  value is \<^verbatim>\<open>undefined\<close>; the posted body is the object that remains.
\<close>

definition json_object :: "(string \<times> jsval) list \<Rightarrow> jsval" where
  "json_object fs = JObj (filter (\<lambda>kv. snd kv \<noteq> JUndefined) fs)"

text \<open>
  The inside of the \<^verbatim>\<open>try\<close> of the message handler, lines 118 to 154;
  \<open>Some err\<close> is what is thrown into the \<^verbatim>\<open>catch\<close>.
\<close>

definition relay :: "env \<Rightarrow> wa_message \<Rightarrow> world \<Rightarrow> world \<times> js_error option" where
  "relay e msg w =
     (case getAccessToken e w of
        (w1, Inl err) \<Rightarrow> (w1, Some err)
      | (w1, Inr accessToken) \<Rightarrow>
          (if hasMedia msg then
             (let w2 = issue DownloadMedia w1 in
              case downloadMedia e (calls w1) msg of
                Inl err \<Rightarrow> (w2, Some err)
              | Inr None \<Rightarrow>
                  (w2, Some (TypeError (''Cannot read properties of undefined (reading '' @
                     [CHR 0x27] @ ''mimetype'' @ [CHR 0x27] @ '')'')))
              | Inr (Some media) \<Rightarrow>
                  (let file = ''data:'' @ mimetype media @ '';base64,'' @ data media;
                       options = [(''folder'', ''wa-inbox-images''), (''resource_type'', ''image'')];
                       w3 = issue (CloudinaryUpload file options) w2
                   in case cloudinary_upload e (calls w2) file options of
                        Inl err \<Rightarrow> (w3, Some err)
                      | Inr upload \<Rightarrow>
                          (case get_prop upload ''secure_url'' of
                             Inl err \<Rightarrow> (w3, Some err)
                           | Inr secure_url \<Rightarrow>
                               (let b = json_object
                                      [(''from'', msg_from msg),
                                       (''imageUrl'', secure_url),
                                       (''mimetype'', JStr (mimetype media)),
                                       (''text'', js_or (js_or (msg_caption msg) (msg_body msg)) (JStr '''')),
                                       (''access_token'', accessToken),
                                       (''timestamp'', JStr (toISOString e (calls w3)))];
                                    w4 = issue (WebhookPost (WEBHOOK_URL e) b) w3
                                in case webhook_fetch e (calls w3) (WEBHOOK_URL e) b of
                                     Inl err \<Rightarrow> (w4, Some err)
                                   | Inr st \<Rightarrow> (console_log (LogWebhookMedia st) w4, None)))))
           else
             (let b = json_object
                    [(''from'', msg_from msg),
                     (''text'', msg_body msg),
                     (''access_token'', accessToken),
                     (''timestamp'', JStr (toISOString e (calls w1)))];
                  w2 = issue (WebhookPost (WEBHOOK_URL e) b) w1
              in case webhook_fetch e (calls w1) (WEBHOOK_URL e) b of
                   Inl err \<Rightarrow> (w2, Some err)
                 | Inr st \<Rightarrow> (console_log (LogWebhookText st) w2, None))))"

text \<open>The handler of the \<^verbatim>\<open>message\<close> event, lines 113 to 158.\<close>

definition on_message :: "env \<Rightarrow> wa_message \<Rightarrow> world \<Rightarrow> world" where
  "on_message e msg w =
     (let w0 = console_log (LogMessage (msg_from msg) (msg_to msg) (msg_body msg) (msg_timestamp msg)) w in
      if fromMe msg then w0
      else
        (case relay e msg w0 of
           (w1, None) \<Rightarrow> w1
         | (w1, Some err) \<Rightarrow> console_log (LogWebhookError err) w1))"

section \<open>The reply endpoint\<close>

text \<open>The HTTP answer: \<^verbatim>\<open>res.json(b)\<close> alone answers with status 200.\<close>

record response =
  status :: nat
  body :: jsval

text \<open>
  Lines 169 to 173:
  \<^verbatim>\<open>typeof req.body === 'string' ? JSON.parse(req.body)
    : typeof req.body.data === 'string' ? JSON.parse(req.body.data)
    : req.body.data || req.body\<close>
\<close>

definition resolve_payload :: "env \<Rightarrow> jsval \<Rightarrow> js_error + jsval" where
  "resolve_payload e b =
     (case b of
        JStr s \<Rightarrow> JSON_parse e s
      | _ \<Rightarrow>
          (case get_prop b ''data'' of
             Inl err \<Rightarrow> Inl err
           | Inr d \<Rightarrow> (case d of JStr s \<Rightarrow> JSON_parse e s | _ \<Rightarrow> Inr (js_or d b))))"

text \<open>
  Line 175: \<^verbatim>\<open>const { from, reply, imageUrl, caption } = payload\<close>, which throws
  on \<^verbatim>\<open>null\<close> and \<^verbatim>\<open>undefined\<close> (the message is the one V8 prints).
\<close>

record reply_request =
  "from" :: jsval
  reply :: jsval
  imageUrl :: jsval
  caption :: jsval

definition destructure :: "jsval \<Rightarrow> js_error + reply_request" where
  "destructure p =
     (case p of
        JUndefined \<Rightarrow>
          Inl (TypeError (''Cannot destructure property '' @ [CHR 0x27] @ ''from'' @ [CHR 0x27] @
            '' of '' @ [CHR 0x27] @ ''payload'' @ [CHR 0x27] @ '' as it is undefined.''))
      | JNull \<Rightarrow>
          Inl (TypeError (''Cannot destructure property '' @ [CHR 0x27] @ ''from'' @ [CHR 0x27] @
            '' of '' @ [CHR 0x27] @ ''payload'' @ [CHR 0x27] @ '' as it is null.''))
      | _ \<Rightarrow>
          Inr \<lparr>from = own_prop p ''from'', reply = own_prop p ''reply'',
               imageUrl = own_prop p ''imageUrl'', caption = own_prop p ''caption''\<rparr>)"

text \<open>Lines 169 to 175 together: the request that the body resolves to.\<close>

definition resolved_request :: "env \<Rightarrow> jsval \<Rightarrow> js_error + reply_request" where
  "resolved_request e b =
     (case resolve_payload e b of Inl err \<Rightarrow> Inl err | Inr payload \<Rightarrow> destructure payload)"

text \<open>\<^verbatim>\<open>{ caption: caption || reply || '' }\<close>, lines 185, 195 and 201.\<close>

definition caption_options :: "reply_request \<Rightarrow> send_options" where
  "caption_options r = Options [(''caption'', js_or (js_or (caption r) (reply r)) (JStr ''''))]"

text \<open>
  \<^verbatim>\<open>await client.sendMessage(to, c, options)\<close>: the call is issued; \<open>Some err\<close>
  is its rejection.
\<close>

definition send :: "env \<Rightarrow> jsval \<Rightarrow> content \<Rightarrow> send_options \<Rightarrow> world \<Rightarrow> world \<times> js_error option" where
  "send e to c options w = (issue (SendMessage to c options) w, sendMessage e (calls w) to c options)"

text \<open>\<^verbatim>\<open>MessageMedia.fromUrl(url, { unsafeMime: true })\<close>\<close>

definition resolve :: "env \<Rightarrow> jsval \<Rightarrow> world \<Rightarrow> world \<times> (js_error + MessageMedia)" where
  "resolve e url w = (issue (FromUrl url True) w, fromUrl e (calls w) url True)"

text \<open>
  Lines 188 to 190: \<^verbatim>\<open>imageUrl.map(async (url) => await MessageMedia.fromUrl(...))\<close>
  starts one resolution for each URL, in array order, before any of them settles.
\<close>

fun resolve_each :: "env \<Rightarrow> jsval list \<Rightarrow> world \<Rightarrow> world \<times> (js_error + MessageMedia) list" where
  "resolve_each e [] w = (w, [])"
| "resolve_each e (u # us) w =
     (case resolve e u w of
        (w1, r) \<Rightarrow> (case resolve_each e us w1 of (w2, rs) \<Rightarrow> (w2, r # rs)))"

text \<open>
  \<^verbatim>\<open>await Promise.all(ps)\<close>: the list of the values when every promise is
  fulfilled; otherwise the rejection that settles first, which may be any of the
  rejections: \<open>first\<close> picks it.
\<close>

fun rejections :: "(js_error + 'a) list \<Rightarrow> js_error list" where
  "rejections [] = []"
| "rejections (Inl err # rs) = err # rejections rs"
| "rejections (Inr x # rs) = rejections rs"

fun fulfilments :: "(js_error + 'a) list \<Rightarrow> 'a list" where
  "fulfilments [] = []"
| "fulfilments (Inl err # rs) = fulfilments rs"
| "fulfilments (Inr x # rs) = x # fulfilments rs"

definition promise_all :: "(js_error list \<Rightarrow> nat) \<Rightarrow> (js_error + 'a) list \<Rightarrow> js_error + 'a list" where
  "promise_all first rs =
     (case rejections rs of
        [] \<Rightarrow> Inr (fulfilments rs)
      | err # errs \<Rightarrow> Inl ((err # errs) ! (first (err # errs) mod length (err # errs))))"

text \<open>
  Lines 194 to 197:
  \<^verbatim>\<open>for (let i = 0; i < mediaList.length; i++) {
    const options = i === 0 ? { caption: caption || reply || '' } : {};
    await client.sendMessage(from, mediaList[i], options);
  }\<close>
\<close>

function send_gallery ::
  "env \<Rightarrow> reply_request \<Rightarrow> MessageMedia list \<Rightarrow> nat \<Rightarrow> world \<Rightarrow> world \<times> js_error option" where
  "send_gallery e r mediaList i w =
     (if i < length mediaList then
        (let options = (if i = 0 then caption_options r else Options []) in
         case send e (from r) (Media (mediaList ! i)) options w of
           (w1, Some err) \<Rightarrow> (w1, Some err)
         | (w1, None) \<Rightarrow> send_gallery e r mediaList (Suc i) w1)
      else (w, None))"
  by pat_completeness auto
termination
  by (relation "measure (\<lambda>(e, r, mediaList, i, w). length mediaList - i)") auto

text \<open>
  Lines 177 to 206, the body of the \<^verbatim>\<open>try\<close> after the payload is
  destructured: the validation, then the dispatch on the shape of
  \<^verbatim>\<open>imageUrl\<close>, then \<^verbatim>\<open>res.json({ success: true })\<close>. \<open>Inl err\<close> is
  what is thrown into the \<^verbatim>\<open>catch\<close>. In the branch of an array that is not a
  singleton, line 192 logs
  \<^verbatim>\<open>`[${label}] Kirim ${mediaList.length} gambar ke ${from}`\<close> between the
  resolutions and the sends: the conversion of \<^verbatim>\<open>from\<close> to a string can throw,
  and then nothing is sent.
\<close>

definition validation_response :: response where
  "validation_response =
     \<lparr>status = 400, body = JObj [(''error'', JStr ''from dan reply/imageUrl wajib'')]\<rparr>"

definition success_response :: response where
  "success_response = \<lparr>status = 200, body = JObj [(''success'', JBool True)]\<rparr>"

definition dispatch :: "env \<Rightarrow> string \<Rightarrow> reply_request \<Rightarrow> world \<Rightarrow> world \<times> (js_error + response)" where
  "dispatch e label r w =
     (if \<not> truthy (from r) \<or> (\<not> truthy (reply r) \<and> \<not> truthy (imageUrl r)) then
        (w, Inr validation_response)
      else
        (case
           (case imageUrl r of
              JArr urls \<Rightarrow>
                (if length urls = 1 then
                   (case resolve e (urls ! 0) w of
                      (w1, Inl err) \<Rightarrow> (w1, Some err)
                    | (w1, Inr media) \<Rightarrow> send e (from r) (Media media) (caption_options r) w1)
                 else
                   (case resolve_each e urls w of
                      (w1, rs) \<Rightarrow>
                        (case promise_all (settles_first e (calls w1)) rs of
                           Inl err \<Rightarrow> (w1, Some err)
                         | Inr mediaList \<Rightarrow>
                             (case template e (from r) of
                                Inl err \<Rightarrow> (w1, Some err)
                              | Inr shown \<Rightarrow>
                                  send_gallery e r mediaList 0
                                    (console_log (LogGallery label (length mediaList) shown) w1)))))
            | JStr s \<Rightarrow>
                (case resolve e (JStr s) w of
                   (w1, Inl err) \<Rightarrow> (w1, Some err)
                 | (w1, Inr media) \<Rightarrow> send e (from r) (Media media) (caption_options r) w1)
            | _ \<Rightarrow> send e (from r) (Plain (reply r)) NoOptions w)
         of
           (w1, Some err) \<Rightarrow> (w1, Inl err)
         | (w1, None) \<Rightarrow> (w1, Inr success_response)))"

text \<open>
  \<^verbatim>\<open>handleReply(req, res, client, label)\<close>, lines 166 to 211. The argument is
  \<^verbatim>\<open>req.body\<close>; the result is the world after the call and what \<^verbatim>\<open>res\<close>
  was answered with.
\<close>

definition handleReply :: "env \<Rightarrow> string \<Rightarrow> jsval \<Rightarrow> world \<Rightarrow> world \<times> response" where
  "handleReply e label b w =
     (case
        (case resolved_request e b of
           Inl err \<Rightarrow> (console_log (LogReplyPayload label b) w, Inl err)
         | Inr r \<Rightarrow> dispatch e label r (console_log (LogReplyPayload label b) w))
      of
        (w1, Inr answer) \<Rightarrow> (w1, answer)
      | (w1, Inl err) \<Rightarrow>
          (console_log (LogReplyError label (message err)) w1,
           \<lparr>status = 500,
            body = JObj [(''error'', JStr ''Gagal balas''), (''detail'', JStr (message err))]\<rparr>))"

section \<open>The words of the specification\<close>

text \<open>
  The specification speaks of a field that is absent or present, and writes
  \<^verbatim>\<open>a ?? b\<close>: \<open>a\<close> when it is present, \<open>b\<close> otherwise. A field is absent when
  the property is not there or is \<^verbatim>\<open>null\<close>; the empty string is a present
  value.
\<close>

definition absent :: "jsval \<Rightarrow> bool" where
  "absent v \<longleftrightarrow> v = JUndefined \<or> v = JNull"

definition nullish_or :: "jsval \<Rightarrow> jsval \<Rightarrow> jsval" where
  "nullish_or a b = (if absent a then b else a)"

section \<open>A concrete environment\<close>

text \<open>
  An environment in which every collaborator answers: the media object of a URL carries
  the URL as its data, so the media of distinct URLs are distinct; \<^verbatim>\<open>JSON.parse\<close>
  knows the one string of the specification's example.
\<close>

definition example_json :: string where
  \<open>example_json = ''{"from":"x","reply":"hi"}''\<close>

definition env0 :: env where
  "env0 =
     \<lparr>JSON_parse = (\<lambda>s. if s = example_json
                          then Inr (JObj [(''from'', JStr ''x''), (''reply'', JStr ''hi'')])
                          else Inl (SyntaxError ''Unexpected token'')),
      JSON_stringify = (\<lambda>v. ''{}''),
      Number_toString = (\<lambda>n. ''0''),
      settles_first = (\<lambda>h errs. 0),
      Date_now = (\<lambda>h. 1700000000999),
      toISOString = (\<lambda>h. ''2023-11-14T22:13:20.999Z''),
      serviceAccount = \<lparr>private_key = ''key'', client_email = JStr ''bot@example.com''\<rparr>,
      WEBHOOK_URL = JStr ''https://example.com/hook'',
      jwt_sign = (\<lambda>p k. Inr ''jwt''),
      token_fetch = (\<lambda>h u g a. Inr (JObj [(''access_token'', JStr ''tok'')])),
      toDataURL = (\<lambda>qr. Inr (''data:image/png;base64,'' @ qr)),
      cloudinary_upload = (\<lambda>h f opts. Inr (JObj [(''secure_url'', JStr ''https://res.example.com/i.png'')])),
      downloadMedia = (\<lambda>h m. Inr (Some \<lparr>mimetype = ''image/jpeg'', data = ''QUJD''\<rparr>)),
      webhook_fetch = (\<lambda>h u b. Inr 200),
      fromUrl = (\<lambda>h u unsafe. case u of
                    JStr s \<Rightarrow> Inr \<lparr>mimetype = ''image/png'', data = s\<rparr>
                  | _ \<Rightarrow> Inl (TypeError ''Invalid URL'')),
      sendMessage = (\<lambda>h to c opts. None)\<rparr>"

definition world0 :: world where
  "world0 = \<lparr>calls = [], console = []\<rparr>"

definition png :: "string \<Rightarrow> MessageMedia" where
  "png s = \<lparr>mimetype = ''image/png'', data = s\<rparr>"



text \<open>A message the account sent itself.\<close>

definition self_message :: wa_message where
  "self_message = \<lparr>msg_from = JStr ''me@c.us'', msg_to = JStr ''you@c.us'', msg_body = JStr ''hello'',
     msg_caption = JUndefined, msg_timestamp = JNum 1700000000, fromMe = True, hasMedia = True\<rparr>"

text \<open>Environments in which the token endpoint or the image host answers otherwise.\<close>

definition env_empty_token :: env where
  "env_empty_token = env0\<lparr>token_fetch := (\<lambda>h u g a. Inr (JObj [(''access_token'', JStr '''')]))\<rparr>"

definition env_upload_fails :: env where
  "env_upload_fails = env0\<lparr>cloudinary_upload := (\<lambda>h f opts. Inl (Error ''upload failed''))\<rparr>"

definition env_render_fails :: env where
  "env_render_fails = env0\<lparr>toDataURL := (\<lambda>qr. Inl (Error ''render failed''))\<rparr>"

definition env_invalid_grant :: env where
  "env_invalid_grant = env0\<lparr>token_fetch := (\<lambda>h u g a.
     Inr (JObj [(''error'', JStr ''invalid_grant''),
                (''error_description'', JStr ''Invalid JWT Signature.'')]))\<rparr>"

text \<open>Reply bodies with a caption, and inbound messages.\<close>

definition captioned_body :: jsval where
  "captioned_body = JObj [(''from'', JStr ''x''), (''reply'', JStr ''hi''),
     (''imageUrl'', JStr ''a.png''), (''caption'', JStr ''look'')]"

definition empty_caption_body :: jsval where
  "empty_caption_body = JObj [(''from'', JStr ''x''), (''reply'', JStr ''hi''),
     (''imageUrl'', JStr ''a.png''), (''caption'', JStr '''')]"

definition singleton_empty_caption_body :: jsval where
  "singleton_empty_caption_body = JObj [(''from'', JStr ''x''), (''reply'', JStr ''hi''),
     (''imageUrl'', JArr [JStr ''a.png'']), (''caption'', JStr '''')]"

text \<open>
  Reply bodies with an empty array of images: one whose \<^verbatim>\<open>from\<close> is the empty
  string, and one whose \<^verbatim>\<open>from\<close> is the object that
  \<^verbatim>\<open>{"from":{"toString":1},"imageUrl":[]}\<close> parses to, which no template
  literal can convert to a string.
\<close>

definition empty_from_body :: jsval where
  "empty_from_body = JObj [(''from'', JStr ''''), (''imageUrl'', JArr [])]"

definition unprintable_from :: jsval where
  "unprintable_from = JObj [(''toString'', JNum 1)]"

definition unprintable_from_body :: jsval where
  "unprintable_from_body = JObj [(''from'', unprintable_from), (''imageUrl'', JArr [])]"

definition media_message :: wa_message where
  "media_message = \<lparr>msg_from = JStr ''you@c.us'', msg_to = JStr ''me@c.us'', msg_body = JStr ''hello'',
     msg_caption = JUndefined, msg_timestamp = JNum 1700000000, fromMe = False, hasMedia = True\<rparr>"

definition text_message :: wa_message where
  "text_message = \<lparr>msg_from = JStr ''you@c.us'', msg_to = JStr ''me@c.us'', msg_body = JStr ''hello'',
     msg_caption = JUndefined, msg_timestamp = JNum 1700000000, fromMe = False, hasMedia = False\<rparr>"

text \<open>The media payload as the specification writes it, with the field \<^verbatim>\<open>accessToken\<close>.\<close>

definition spec_media_payload :: "jsval \<Rightarrow> jsval \<Rightarrow> jsval \<Rightarrow> jsval \<Rightarrow> jsval \<Rightarrow> jsval \<Rightarrow> jsval" where
  "spec_media_payload sender url mime txt token stamp =
     JObj [(''from'', sender), (''imageUrl'', url), (''mimetype'', mime), (''text'', txt),
           (''accessToken'', token), (''timestamp'', stamp)]"

section \<open>Facts about the model\<close>

declare send_gallery.simps [simp del]

subsection \<open>The world\<close>

text \<open>Logging leaves the calls as they are, and a call leaves the console.\<close>

lemma calls_console_log [simp]: "calls (console_log l w) = calls w"
  by (simp add: console_log_def)

lemma calls_issue [simp]: "calls (issue c w) = calls w @ [c]"
  by (simp add: issue_def)

lemma console_issue [simp]: "console (issue c w) = console w"
  by (simp add: issue_def)

lemma console_console_log [simp]: "console (console_log l w) = console w @ [l]"
  by (simp add: console_log_def)

subsection \<open>Resolving a body\<close>

text \<open>An absent field fails the tests of line 177; a bare object without \<^verbatim>\<open>data\<close> is its own payload.\<close>

lemma absent_not_truthy: "absent v \<Longrightarrow> \<not> truthy v"
  by (auto simp add: absent_def)

lemma resolved_bare_object:
  "own_prop (JObj fs) ''data'' = JUndefined \<Longrightarrow>
   resolved_request e (JObj fs) =
     Inr \<lparr>from = own_prop (JObj fs) ''from'', reply = own_prop (JObj fs) ''reply'',
          imageUrl = own_prop (JObj fs) ''imageUrl'', caption = own_prop (JObj fs) ''caption''\<rparr>"
  by (simp add: resolved_request_def resolve_payload_def get_prop_def js_or_def destructure_def)

lemma handleReply_resolved:
  "resolved_request e b = Inr r \<Longrightarrow>
   handleReply e label b w =
     (case dispatch e label r (console_log (LogReplyPayload label b) w) of
        (w1, Inr answer) \<Rightarrow> (w1, answer)
      | (w1, Inl err) \<Rightarrow>
          (console_log (LogReplyError label (message err)) w1,
           \<lparr>status = 500,
            body = JObj [(''error'', JStr ''Gagal balas''), (''detail'', JStr (message err))]\<rparr>))"
  by (simp add: handleReply_def)

subsection \<open>Resolutions and sends\<close>

text \<open>The resolutions of a gallery are issued for every URL in order, each answered from the calls before it; the sends of a gallery are a prefix of the sends of all media in order. What is logged changes neither.\<close>

lemma resolve_each_world:
  "resolve_each e us w = (w', rs) \<Longrightarrow>
   calls w' = calls w @ map (\<lambda>u. FromUrl u True) us \<and> console w' = console w \<and>
   length rs = length us"
proof (induction us arbitrary: w w' rs)
  case Nil
  then show ?case by simp
next
  case (Cons u us)
  obtain w2 rs2 where rest: "resolve_each e us (issue (FromUrl u True) w) = (w2, rs2)"
    by (cases "resolve_each e us (issue (FromUrl u True) w)")
  from Cons.prems rest have "w' = w2" "rs = fromUrl e (calls w) u True # rs2"
    by (simp_all add: resolve_def)
  with Cons.IH[OF rest] show ?case by simp
qed

lemma resolve_each_calls:
  "calls (fst (resolve_each e us w)) = calls w @ map (\<lambda>u. FromUrl u True) us"
  using resolve_each_world[of e us w] by (cases "resolve_each e us w") simp


lemma resolve_each_cong:
  "calls w = calls w' \<Longrightarrow> snd (resolve_each e us w) = snd (resolve_each e us w')"
proof (induction us arbitrary: w w')
  case Nil
  then show ?case by simp
next
  case (Cons u us)
  have "snd (resolve_each e us (issue (FromUrl u True) w)) =
        snd (resolve_each e us (issue (FromUrl u True) w'))"
    by (rule Cons.IH) (simp add: Cons.prems)
  then show ?case
    by (auto simp add: resolve_def Cons.prems split: prod.splits)
qed


lemma no_rejections:
  "rejections rs = [] \<Longrightarrow> rs = map Inr (fulfilments rs)"
  by (induction rs rule: rejections.induct) simp_all

lemma rejections_map_Inr [simp]:
  "rejections (map Inr xs) = []"
  by (induction xs) simp_all

lemma fulfilments_map_Inr [simp]:
  "fulfilments (map Inr xs) = xs"
  by (induction xs) simp_all

lemma promise_all_Inr:
  "promise_all first rs = Inr xs \<Longrightarrow> rs = map Inr xs"
  by (auto simp add: promise_all_def dest: no_rejections split: list.splits)

lemma promise_all_map_Inr [simp]:
  "promise_all first (map Inr xs) = Inr xs"
  by (simp add: promise_all_def)


lemma send_gallery_cong:
  "calls w = calls w' \<Longrightarrow>
   calls (fst (send_gallery e r ms i w)) = calls (fst (send_gallery e r ms i w')) \<and>
   snd (send_gallery e r ms i w) = snd (send_gallery e r ms i w')"
proof (induction e r ms i w arbitrary: w' rule: send_gallery.induct)
  case (1 e r ms i w)
  show ?case
  proof (cases "i < length ms")
    case False
    then show ?thesis
      using "1.prems"
      by (simp add: send_gallery.simps[of e r ms i w] send_gallery.simps[of e r ms i w'])
  next
    case True
    let ?opts = "if i = 0 then caption_options r else Options []"
    let ?c = "SendMessage (from r) (Media (ms ! i)) ?opts"
    show ?thesis
    proof (cases "sendMessage e (calls w) (from r) (Media (ms ! i)) ?opts")
      case (Some err)
      with True "1.prems" show ?thesis
        by (simp add: send_gallery.simps[of e r ms i w] send_gallery.simps[of e r ms i w'] send_def)
    next
      case None
      have s1: "send_gallery e r ms i w = send_gallery e r ms (Suc i) (issue ?c w)"
        using True None by (simp add: send_gallery.simps[of e r ms i w] send_def)
      have s2: "send_gallery e r ms i w' = send_gallery e r ms (Suc i) (issue ?c w')"
        using True None "1.prems"
        by (simp add: send_gallery.simps[of e r ms i w'] send_def)
      have "calls (issue ?c w) = calls (issue ?c w')"
        using "1.prems" by simp
      from "1.IH"[OF True refl _ _ this, of None] None show ?thesis
        by (simp add: s1 s2 send_def)
    qed
  qed
qed

lemma send_gallery_calls:
  "\<exists>k. i \<le> k \<and> k \<le> max i (length ms) \<and> (i < length ms \<longrightarrow> i < k) \<and>
     calls (fst (send_gallery e r ms i w)) =
       calls w @ map (\<lambda>j. SendMessage (from r) (Media (ms ! j))
                          (if j = 0 then caption_options r else Options [])) [i..<k] \<and>
     ((\<forall>h c opts. sendMessage e h (from r) c opts = None) \<longrightarrow>
        k = max i (length ms) \<and> snd (send_gallery e r ms i w) = None)"
proof (induction e r ms i w rule: send_gallery.induct)
  case (1 e r ms i w)
  let ?f = "\<lambda>j. SendMessage (from r) (Media (ms ! j))
                          (if j = 0 then caption_options r else Options [])"
  show ?case
  proof (cases "i < length ms")
    case False
    then show ?thesis
      by (intro exI[of _ i]) (simp add: send_gallery.simps[of e r ms i w])
  next
    case True
    let ?o = "if i = 0 then caption_options r else Options []"
    show ?thesis
    proof (cases "sendMessage e (calls w) (from r) (Media (ms ! i)) ?o")
      case (Some err)
      with True show ?thesis
        by (intro exI[of _ "Suc i"]) (auto simp add: send_gallery.simps[of e r ms i w] send_def)
    next
      case None
      have step: "send_gallery e r ms i w = send_gallery e r ms (Suc i) (issue (?f i) w)"
        using True None by (simp add: send_gallery.simps[of e r ms i w] send_def)
      from "1.IH"[OF True refl, of "issue (?f i) w" None] None
      obtain k where k: "Suc i \<le> k" "k \<le> max (Suc i) (length ms)"
        "calls (fst (send_gallery e r ms (Suc i) (issue (?f i) w))) =
           calls (issue (?f i) w) @ map ?f [Suc i..<k]"
        "(\<forall>h c opts. sendMessage e h (from r) c opts = None) \<longrightarrow>
           k = max (Suc i) (length ms) \<and> snd (send_gallery e r ms (Suc i) (issue (?f i) w)) = None"
        by (auto simp add: send_def)
      have "[i..<k] = i # [Suc i..<k]"
        using k(1) by (simp add: upt_conv_Cons)
      with k True show ?thesis
        by (intro exI[of _ k]) (auto simp add: step)
    qed
  qed
qed

subsection \<open>The dispatch\<close>

text \<open>The calls and the answer of the dispatch depend on the calls issued before, not on the console.\<close>

lemma dispatch_invalid:
  "\<not> truthy (from r) \<or> (\<not> truthy (reply r) \<and> \<not> truthy (imageUrl r)) \<Longrightarrow>
   dispatch e label r w = (w, Inr validation_response)"
  by (simp add: dispatch_def)

lemma dispatch_cong:
  assumes "calls w = calls w'"
  shows "calls (fst (dispatch e l r w)) = calls (fst (dispatch e l r w')) \<and>
         snd (dispatch e l r w) = snd (dispatch e l r w')"
proof (cases "\<not> truthy (from r) \<or> (\<not> truthy (reply r) \<and> \<not> truthy (imageUrl r))")
  case True
  then show ?thesis using assms by (simp add: dispatch_invalid)
next
  case False
  show ?thesis
  proof (cases "imageUrl r")
    case (JArr urls)
    show ?thesis
    proof (cases "length urls = 1")
      case True
      with False JArr assms show ?thesis
        by (simp add: dispatch_def resolve_def send_def split: sum.splits option.splits)
    next
      case many: False
      obtain w1 rs where a: "resolve_each e urls w = (w1, rs)"
        by (cases "resolve_each e urls w")
      obtain w1' rs' where b: "resolve_each e urls w' = (w1', rs')"
        by (cases "resolve_each e urls w'")
      have rs: "rs' = rs"
        using resolve_each_cong[OF assms, of e urls] a b by simp
      have cw: "calls w1 = calls w1'"
        using resolve_each_calls[of e urls w] resolve_each_calls[of e urls w'] a b assms by simp
      show ?thesis
      proof (cases "promise_all (settles_first e (calls w1)) rs")
        case (Inl err)
        with False JArr many a b rs cw show ?thesis
          by (simp add: dispatch_def)
      next
        case (Inr ms)
        show ?thesis
        proof (cases "template e (from r)")
          case thrown: (Inl err)
          with False JArr many a b rs cw Inr show ?thesis
            by (simp add: dispatch_def)
        next
          case shown: (Inr shown)
          have "calls (console_log (LogGallery l (length ms) shown) w1) =
                calls (console_log (LogGallery l (length ms) shown) w1')"
            using cw by simp
          from send_gallery_cong[OF this, of e r ms 0]
          show ?thesis
            using False JArr many a b rs cw Inr shown
            by (auto simp add: dispatch_def split: prod.splits option.splits)
        qed
      qed
    qed
  qed (use False assms in \<open>simp_all add: dispatch_def resolve_def send_def split: sum.splits option.splits\<close>)
qed

lemma handleReply_cong:
  assumes "resolved_request e b = resolved_request e b'"
  shows "calls (fst (handleReply e l b w)) = calls (fst (handleReply e l b' w)) \<and>
         snd (handleReply e l b w) = snd (handleReply e l b' w)"
proof (cases "resolved_request e b'")
  case (Inl err)
  with assms show ?thesis by (simp add: handleReply_def)
next
  case (Inr r)
  have "calls (console_log (LogReplyPayload l b) w) = calls (console_log (LogReplyPayload l b') w)"
    by simp
  from dispatch_cong[OF this, of e l r] Inr assms show ?thesis
    by (auto simp add: handleReply_def split: prod.splits sum.splits)
qed

lemma handleReply_calls:
  assumes "resolved_request e b = Inr r"
  shows "calls (fst (handleReply e label b w)) = calls (fst (dispatch e label r w))"
proof -
  have "calls (console_log (LogReplyPayload label b) w) = calls w"
    by simp
  from dispatch_cong[OF this, of e label r] assms show ?thesis
    by (auto simp add: handleReply_resolved split: prod.splits sum.splits)
qed

lemma dispatch_empty_array:
  "truthy (from r) \<Longrightarrow> imageUrl r = JArr [] \<Longrightarrow> template e (from r) = Inr shown \<Longrightarrow>
   dispatch e label r w = (console_log (LogGallery label 0 shown) w, Inr success_response)"
  by (simp add: dispatch_def send_gallery.simps promise_all_def)


lemma dispatch_singleton:
  "u \<noteq> [] \<Longrightarrow>
   dispatch e label (r\<lparr>imageUrl := JArr [JStr u]\<rparr>) w = dispatch e label (r\<lparr>imageUrl := JStr u\<rparr>) w"
  by (simp add: dispatch_def caption_options_def)

lemma dispatch_single_url:
  "truthy (from r) \<Longrightarrow> u \<noteq> [] \<Longrightarrow>
   calls (fst (dispatch e label (r\<lparr>imageUrl := JStr u\<rparr>) w)) =
     calls w @ FromUrl (JStr u) True #
       (case fromUrl e (calls w) (JStr u) True of
          Inl err \<Rightarrow> []
        | Inr media \<Rightarrow>
            [SendMessage (from r) (Media media)
               (Options [(''caption'', js_or (js_or (caption r) (reply r)) (JStr ''''))])])"
  by (simp add: dispatch_def resolve_def send_def caption_options_def
      split: sum.splits option.splits)

lemma dispatch_gallery:
  assumes urls: "imageUrl r = JArr urls" "length urls \<noteq> 1"
    and valid: "truthy (from r)"
    and resolved: "snd (resolve_each e urls w) = map Inr ms"
    and shown: "template e (from r) = Inr shown"
  shows "\<exists>k. k \<le> length ms \<and> (0 < length ms \<longrightarrow> 0 < k) \<and>
     calls (fst (dispatch e label r w)) =
       calls w @ map (\<lambda>url. FromUrl url True) urls @
         map (\<lambda>j. SendMessage (from r) (Media (ms ! j))
                (if j = 0 then caption_options r else Options [])) [0..<k] \<and>
     ((\<forall>h c opts. sendMessage e h (from r) c opts = None) \<longrightarrow>
        k = length ms \<and> snd (dispatch e label r w) = Inr success_response)"
proof -
  obtain w1 rs where re: "resolve_each e urls w = (w1, rs)"
    by (cases "resolve_each e urls w")
  with resolved have pa: "promise_all (settles_first e (calls w1)) rs = Inr ms" by simp
  have cw1: "calls w1 = calls w @ map (\<lambda>url. FromUrl url True) urls"
    using resolve_each_calls[of e urls w] re by simp
  let ?w2 = "console_log (LogGallery label (length ms) shown) w1"
  have d: "dispatch e label r w =
      (case send_gallery e r ms 0 ?w2 of
         (w3, Some err) \<Rightarrow> (w3, Inl err)
       | (w3, None) \<Rightarrow> (w3, Inr success_response))"
    using urls valid re pa shown by (simp add: dispatch_def)
  from send_gallery_calls[of 0 ms e r ?w2]
  obtain k where k: "k \<le> length ms" "0 < length ms \<longrightarrow> 0 < k"
    "calls (fst (send_gallery e r ms 0 ?w2)) =
       calls ?w2 @ map (\<lambda>j. SendMessage (from r) (Media (ms ! j))
                          (if j = 0 then caption_options r else Options [])) [0..<k]"
    "(\<forall>h c opts. sendMessage e h (from r) c opts = None) \<longrightarrow>
        k = length ms \<and> snd (send_gallery e r ms 0 ?w2) = None"
    by auto
  have "calls (fst (dispatch e label r w)) = calls (fst (send_gallery e r ms 0 ?w2))"
    using d by (simp split: prod.splits option.splits)
  moreover have "(\<forall>h c opts. sendMessage e h (from r) c opts = None) \<longrightarrow>
      snd (dispatch e label r w) = Inr success_response"
    using d k(4) by (auto split: prod.splits option.splits)
  ultimately show ?thesis
    using k cw1 by (intro exI[of _ k]) simp
qed


subsection \<open>Printable values\<close>

text \<open>Every string is printable; an object with an own \<^verbatim>\<open>toString\<close> is not.\<close>

lemma printable_iff:
  "printable e v \<longleftrightarrow> (\<exists>s. template e v = Inr s)"
  by (simp add: printable_def split: sum.splits)

lemma not_printable_iff:
  "\<not> printable e v \<longleftrightarrow> (\<exists>err. template e v = Inl err)"
  by (simp add: printable_def split: sum.splits)

lemma printable_string [simp]:
  "printable e (JStr s)"
  by (simp add: printable_def template_def)

subsection \<open>The access token and the relay\<close>

text \<open>A token that is returned is truthy, so it is never left out of the posted body.\<close>

lemma check_access_token_result:
  "snd (check_access_token e d w) =
     (case d of
        JUndefined \<Rightarrow> Inl (TypeError (''Cannot read properties of undefined (reading '' @
                        [CHR 0x27] @ ''access_token'' @ [CHR 0x27] @ '')''))
      | JNull \<Rightarrow> Inl (TypeError (''Cannot read properties of null (reading '' @
                        [CHR 0x27] @ ''access_token'' @ [CHR 0x27] @ '')''))
      | _ \<Rightarrow>
        if truthy (own_prop d ''access_token'') then Inr (own_prop d ''access_token'')
        else (case template e (js_or (own_prop d ''error_description'') (JStr (JSON_stringify e d))) of
                Inl err \<Rightarrow> Inl err
              | Inr s \<Rightarrow> Inl (Error (''Gagal ambil access token: '' @ s))))"
  by (cases d) (simp_all add: check_access_token_def get_prop_def)

lemma check_access_token_calls [simp]:
  "calls (fst (check_access_token e d w)) = calls w"
  by (simp add: check_access_token_def split: sum.splits)

lemma getAccessToken_cong:
  "calls w = calls w' \<Longrightarrow>
   calls (fst (getAccessToken e w)) = calls (fst (getAccessToken e w')) \<and>
   snd (getAccessToken e w) = snd (getAccessToken e w')"
  by (simp add: getAccessToken_def check_access_token_result split: sum.splits)

lemma getAccessToken_truthy:
  "snd (getAccessToken e w) = Inr t \<Longrightarrow> truthy t"
  by (auto simp add: getAccessToken_def check_access_token_result
      split: sum.splits jsval.splits if_splits)

lemma on_message_relay:
  "\<not> fromMe msg \<Longrightarrow>
   calls (on_message e msg w) =
     calls (fst (relay e msg
       (console_log (LogMessage (msg_from msg) (msg_to msg) (msg_body msg) (msg_timestamp msg)) w)))"
  by (simp add: on_message_def split: prod.splits option.splits)

lemma calls_after_post [simp]:
  "calls (fst (case r of Inl err \<Rightarrow> (w, Some err) | Inr st \<Rightarrow> (console_log (f st) w, None))) = calls w"
  by (cases r) simp_all

lemma relay_media_calls:
  assumes tok: "getAccessToken e w = (w1, Inr accessToken)"
    and media: "hasMedia msg" "downloadMedia e (calls w1) msg = Inr (Some media)"
    and up: "cloudinary_upload e (calls w1 @ [DownloadMedia])
               (''data:'' @ mimetype media @ '';base64,'' @ data media)
               [(''folder'', ''wa-inbox-images''), (''resource_type'', ''image'')] = Inr upload"
    and url: "own_prop upload ''secure_url'' \<noteq> JUndefined"
  shows "calls (fst (relay e msg w)) =
     calls w1 @
       [DownloadMedia,
        CloudinaryUpload (''data:'' @ mimetype media @ '';base64,'' @ data media)
          [(''folder'', ''wa-inbox-images''), (''resource_type'', ''image'')],
        WebhookPost (WEBHOOK_URL e)
          (json_object
             [(''from'', msg_from msg),
              (''imageUrl'', own_prop upload ''secure_url''),
              (''mimetype'', JStr (mimetype media)),
              (''text'', js_or (js_or (msg_caption msg) (msg_body msg)) (JStr '''')),
              (''access_token'', accessToken),
              (''timestamp'', JStr (toISOString e (calls w1 @
                 [DownloadMedia,
                  CloudinaryUpload (''data:'' @ mimetype media @ '';base64,'' @ data media)
                    [(''folder'', ''wa-inbox-images''), (''resource_type'', ''image'')]])))])]"
proof -
  from url have "get_prop upload ''secure_url'' = Inr (own_prop upload ''secure_url'')"
    by (cases upload) (simp_all add: get_prop_def)
  with tok media up show ?thesis
    by (simp add: relay_def Let_def)
qed

lemma relay_text_calls:
  assumes tok: "getAccessToken e w = (w1, Inr accessToken)"
    and plain: "\<not> hasMedia msg"
  shows "calls (fst (relay e msg w)) =
     calls w1 @
       [WebhookPost (WEBHOOK_URL e)
          (json_object
             [(''from'', msg_from msg),
              (''text'', msg_body msg),
              (''access_token'', accessToken),
              (''timestamp'', JStr (toISOString e (calls w1)))])]"
  using tok plain by (simp add: relay_def Let_def)

lemma text_fallback:
  "js_or (js_or c b) (JStr '''') =
     (if truthy c then c else if truthy b then b else JStr '''')"
  by (simp add: js_or_def)

subsection \<open>The concrete environment\<close>

text \<open>What the collaborators of \<open>env0\<close> answer.\<close>

lemma env0_relay [simp]:
  "WEBHOOK_URL env0 = JStr ''https://example.com/hook''"
  "toISOString env0 h = ''2023-11-14T22:13:20.999Z''"
  "downloadMedia env0 h m = Inr (Some \<lparr>mimetype = ''image/jpeg'', data = ''QUJD''\<rparr>)"
  "cloudinary_upload env0 h f opts = Inr (JObj [(''secure_url'', JStr ''https://res.example.com/i.png'')])"
  "webhook_fetch env0 h u b = Inr 200"
  by (simp_all add: env0_def)

lemma env0_reply:
  "sendMessage env0 h to c opts = None"
  "fromUrl env0 h (JStr s) unsafe = Inr (png s)"
  by (simp_all add: env0_def png_def)

lemma getAccessToken_env0:
  "getAccessToken env0 w = (issue (TokenPost token_uri grant_type ''jwt'') w, Inr (JStr ''tok''))"
  by (simp add: getAccessToken_def check_access_token_def get_prop_def env0_def)

section \<open>The claims\<close>



text \<open>
  C2. A logical reply content, an object with fields among \<^verbatim>\<open>from\<close>,
  \<^verbatim>\<open>reply\<close>, \<^verbatim>\<open>imageUrl\<close> and \<^verbatim>\<open>caption\<close>, resolves to
  the same request whether the body is a JSON string of it, an envelope whose
  \<^verbatim>\<open>data\<close> is that JSON string, an envelope whose \<^verbatim>\<open>data\<close> is the
  object, or the object itself; the outbound calls and the answer are then the same.
  \<open>JSON_parse e s = Inr (JObj fs)\<close> says that \<open>s\<close> is a JSON text of the object.
\<close>

theorem payload_shapes_agree:
  assumes parse: "JSON_parse e s = Inr (JObj fs)"
    and fields: "fst ` set fs \<subseteq> {''from'', ''reply'', ''imageUrl'', ''caption''}"
    and string_envelope: "map_of string_envelope ''data'' = Some (JStr s)"
    and object_envelope: "map_of object_envelope ''data'' = Some (JObj fs)"
    and shape: "b \<in> {JStr s, JObj string_envelope, JObj object_envelope, JObj fs}"
  shows "resolved_request e b =
           Inr \<lparr>from = own_prop (JObj fs) ''from'', reply = own_prop (JObj fs) ''reply'',
                imageUrl = own_prop (JObj fs) ''imageUrl'', caption = own_prop (JObj fs) ''caption''\<rparr>
     \<and> calls (fst (handleReply e label b w)) = calls (fst (handleReply e label (JObj fs) w))
     \<and> snd (handleReply e label b w) = snd (handleReply e label (JObj fs) w)"
proof -
  let ?r = "\<lparr>from = own_prop (JObj fs) ''from'', reply = own_prop (JObj fs) ''reply'',
             imageUrl = own_prop (JObj fs) ''imageUrl'', caption = own_prop (JObj fs) ''caption''\<rparr>"
  have "''data'' \<notin> fst ` set fs"
    using fields by auto
  then have "map_of fs ''data'' = None"
    by (simp add: map_of_eq_None_iff)
  then have bare: "resolved_request e (JObj fs) = Inr ?r"
    by (simp add: resolved_bare_object)
  have payload: "destructure (JObj fs) = Inr ?r"
    by (simp add: destructure_def)
  have "resolved_request e (JStr s) = Inr ?r"
    using parse payload by (simp add: resolved_request_def resolve_payload_def)
  moreover have "resolved_request e (JObj string_envelope) = Inr ?r"
    using parse payload string_envelope
    by (simp add: resolved_request_def resolve_payload_def get_prop_def)
  moreover have "resolved_request e (JObj object_envelope) = Inr ?r"
    using payload object_envelope
    by (simp add: resolved_request_def resolve_payload_def get_prop_def js_or_def)
  ultimately have req: "resolved_request e b = Inr ?r"
    using shape bare by auto
  then have "resolved_request e b = resolved_request e (JObj fs)"
    using bare by simp
  from handleReply_cong[OF this, of label w] req show ?thesis
    by simp
qed

theorem payload_shapes_agree_witness:
  "JSON_parse env0 example_json = Inr (JObj [(''from'', JStr ''x''), (''reply'', JStr ''hi'')])
   \<and> resolved_request env0 (JObj [(''data'', JStr example_json)]) =
       Inr \<lparr>from = JStr ''x'', reply = JStr ''hi'', imageUrl = JUndefined, caption = JUndefined\<rparr>
   \<and> resolved_request env0 (JObj [(''from'', JStr ''x''), (''reply'', JStr ''hi'')]) =
       Inr \<lparr>from = JStr ''x'', reply = JStr ''hi'', imageUrl = JUndefined, caption = JUndefined\<rparr>
   \<and> calls (fst (handleReply env0 ''client1'' (JObj [(''data'', JStr example_json)]) world0)) =
       calls (fst (handleReply env0 ''client1''
         (JObj [(''from'', JStr ''x''), (''reply'', JStr ''hi'')]) world0))
   \<and> snd (handleReply env0 ''client1'' (JObj [(''data'', JStr example_json)]) world0) =
       snd (handleReply env0 ''client1''
         (JObj [(''from'', JStr ''x''), (''reply'', JStr ''hi'')]) world0)
   \<and> calls (fst (handleReply env0 ''client1'' (JObj [(''data'', JStr example_json)]) world0)) =
       [SendMessage (JStr ''x'') (Plain (JStr ''hi'')) NoOptions]"
proof -
  let ?fs = "[(''from'', JStr ''x''), (''reply'', JStr ''hi'')]"
  let ?se = "[(''data'', JStr example_json)]"
  let ?oe = "[(''data'', JObj ?fs)]"
  have parse: "JSON_parse env0 example_json = Inr (JObj ?fs)"
    by (simp add: env0_def)
  have fields: "fst ` set ?fs \<subseteq> {''from'', ''reply'', ''imageUrl'', ''caption''}"
    by simp
  have se: "map_of ?se ''data'' = Some (JStr example_json)"
    by simp
  have oe: "map_of ?oe ''data'' = Some (JObj ?fs)"
    by simp
  have s1: "JObj ?se \<in> {JStr example_json, JObj ?se, JObj ?oe, JObj ?fs}"
    by simp
  have s2: "JObj ?fs \<in> {JStr example_json, JObj ?se, JObj ?oe, JObj ?fs}"
    by simp
  have bare: "calls (fst (handleReply env0 ''client1'' (JObj ?fs) world0)) =
      [SendMessage (JStr ''x'') (Plain (JStr ''hi'')) NoOptions]"
    by (simp add: handleReply_calls[OF resolved_bare_object] dispatch_def send_def world0_def
        env0_reply)
  from payload_shapes_agree[OF parse fields se oe s1, of "''client1''" world0]
    payload_shapes_agree[OF parse fields se oe s2, of "''client1''" world0] parse bare
  show ?thesis
    by simp
qed

text \<open>
  C3. A reply request in which \<^verbatim>\<open>from\<close> is absent, or in which both
  \<^verbatim>\<open>reply\<close> and \<^verbatim>\<open>imageUrl\<close> are absent, is answered with HTTP 400 and
  an error body, and no call leaves the process: in particular nothing is sent through
  the session.
\<close>

theorem missing_fields_rejected:
  assumes "resolved_request e b = Inr r"
    and "absent (from r) \<or> (absent (reply r) \<and> absent (imageUrl r))"
  shows "snd (handleReply e label b w) =
           \<lparr>status = 400, body = JObj [(''error'', JStr ''from dan reply/imageUrl wajib'')]\<rparr>
         \<and> calls (fst (handleReply e label b w)) = calls w"
proof -
  from assms(2) have "\<not> truthy (from r) \<or> (\<not> truthy (reply r) \<and> \<not> truthy (imageUrl r))"
    by (auto dest: absent_not_truthy)
  then show ?thesis
    using assms(1) by (simp add: handleReply_resolved dispatch_invalid validation_response_def)
qed

theorem missing_fields_rejected_witness:
  "resolved_request env0 (JObj [(''reply'', JStr ''hi'')]) =
     Inr \<lparr>from = JUndefined, reply = JStr ''hi'', imageUrl = JUndefined, caption = JUndefined\<rparr>
   \<and> absent JUndefined
   \<and> snd (handleReply env0 ''client1'' (JObj [(''reply'', JStr ''hi'')]) world0) =
       \<lparr>status = 400, body = JObj [(''error'', JStr ''from dan reply/imageUrl wajib'')]\<rparr>
   \<and> calls (fst (handleReply env0 ''client1'' (JObj [(''reply'', JStr ''hi'')]) world0)) = []"
proof -
  let ?r = "\<lparr>from = JUndefined, reply = JStr ''hi'', imageUrl = JUndefined, caption = JUndefined\<rparr>"
  have req: "resolved_request env0 (JObj [(''reply'', JStr ''hi'')]) = Inr ?r"
    by (simp add: resolved_request_def resolve_payload_def get_prop_def js_or_def destructure_def)
  have ab: "absent (from ?r) \<or> (absent (reply ?r) \<and> absent (imageUrl ?r))"
    by (simp add: absent_def)
  from missing_fields_rejected[OF req ab, of "''client1''" world0] req show ?thesis
    by (simp add: absent_def world0_def)
qed

text \<open>
  C4, as amended. For a reply request that passes the validation and is dispatched with
  an image (a URL string, a singleton array, or a longer array) whose URLs all resolve,
  and for a longer array when the log line of line 192 can convert \<^verbatim>\<open>from\<close>
  to a string (as it can every string; when it cannot, nothing is sent),
  the captioned send is the first send after the resolutions, and its caption is
  \<^verbatim>\<open>caption || reply || ''\<close>: the caption field when it is truthy (present and
  not empty), otherwise the reply field when it is truthy, otherwise the empty string. The
  sends after it carry the empty options. Here \<open>urls\<close> are the URLs dispatched: the one
  URL of a string, or the elements of the array. As stated, with
  \<^verbatim>\<open>caption ?? reply ?? ''\<close> and a present caption taken also when it is the
  empty string, the claim fails: an empty caption gives way to the reply.
\<close>

theorem caption_of_captioned_send:
  assumes req: "resolved_request e b = Inr r"
    and valid: "truthy (from r)" "truthy (reply r) \<or> truthy (imageUrl r)"
    and image: "imageUrl r = JStr s \<and> urls = [JStr s] \<or> imageUrl r = JArr urls"
    and resolved: "snd (resolve_each e urls w) = map Inr (media # rest)"
    and shown: "length urls = 1 \<or> printable e (from r)"
  shows "\<exists>later.
     calls (fst (handleReply e label b w)) =
       calls w @ map (\<lambda>url. FromUrl url True) urls @
         SendMessage (from r) (Media media)
           (Options [(''caption'',
              if truthy (caption r) then caption r
              else if truthy (reply r) then reply r else JStr '''')]) # later
     \<and> (\<forall>c \<in> set later. \<exists>m. c = SendMessage (from r) (Media m) (Options []))"
proof -
  let ?cap = "Options [(''caption'',
              if truthy (caption r) then caption r
              else if truthy (reply r) then reply r else JStr '''')]"
  have cap: "caption_options r = ?cap"
    by (simp add: caption_options_def js_or_def)
  have hc: "calls (fst (handleReply e label b w)) = calls (fst (dispatch e label r w))"
    using req by (rule handleReply_calls)
  have one: "calls (fst (dispatch e label r w)) =
      calls w @ [FromUrl u True, SendMessage (from r) (Media media) ?cap]"
    if "urls = [u]" "imageUrl r = JStr s \<and> u = JStr s \<or> imageUrl r = JArr [u]" for u
  proof -
    from resolved that(1) have "fromUrl e (calls w) u True = Inr media"
      by (simp add: resolve_def)
    with that(2) valid cap show ?thesis
      by (auto simp add: dispatch_def resolve_def send_def split: option.splits)
  qed
  show ?thesis
  proof (cases "length urls = 1")
    case True
    then obtain u where u: "urls = [u]"
      by (cases urls) auto
    with image have "imageUrl r = JStr s \<and> u = JStr s \<or> imageUrl r = JArr [u]"
      by auto
    from one[OF u this] hc u show ?thesis
      by (intro exI[of _ "[]"]) simp
  next
    case False
    with image have arr: "imageUrl r = JArr urls"
      by auto
    from False shown obtain text_of_from where "template e (from r) = Inr text_of_from"
      by (auto simp add: printable_iff)
    from dispatch_gallery[OF arr False valid(1) resolved this, of label]
    obtain k where k: "0 < k"
      "calls (fst (dispatch e label r w)) =
         calls w @ map (\<lambda>url. FromUrl url True) urls @
           map (\<lambda>j. SendMessage (from r) (Media ((media # rest) ! j))
                  (if j = 0 then caption_options r else Options [])) [0..<k]"
      by auto
    have "[0..<k] = 0 # [Suc 0..<k]"
      using k(1) by (simp add: upt_conv_Cons)
    with k(2) hc cap show ?thesis
      by (intro exI[of _ "map (\<lambda>j. SendMessage (from r) (Media ((media # rest) ! j))
                  (if j = 0 then caption_options r else Options [])) [Suc 0..<k]"]) auto
  qed
qed

theorem caption_of_captioned_send_witness:
  "resolved_request env0 captioned_body =
     Inr \<lparr>from = JStr ''x'', reply = JStr ''hi'', imageUrl = JStr ''a.png'', caption = JStr ''look''\<rparr>
   \<and> snd (resolve_each env0 [JStr ''a.png''] world0) = [Inr (png ''a.png'')]
   \<and> calls (fst (handleReply env0 ''client1'' captioned_body world0)) =
       [FromUrl (JStr ''a.png'') True,
        SendMessage (JStr ''x'') (Media (png ''a.png'')) (Options [(''caption'', JStr ''look'')])]"
proof -
  let ?r = "\<lparr>from = JStr ''x'', reply = JStr ''hi'', imageUrl = JStr ''a.png'', caption = JStr ''look''\<rparr>"
  have req: "resolved_request env0 captioned_body = Inr ?r"
    by (simp add: captioned_body_def resolved_bare_object)
  have valid: "truthy (from ?r)" "truthy (reply ?r) \<or> truthy (imageUrl ?r)"
    by simp_all
  have image: "imageUrl ?r = JStr ''a.png'' \<and> [JStr ''a.png''] = [JStr ''a.png'']
      \<or> imageUrl ?r = JArr [JStr ''a.png'']"
    by simp
  have resolved: "snd (resolve_each env0 [JStr ''a.png''] world0) = map Inr [png ''a.png'']"
    by (simp add: resolve_def env0_reply)
  have shown: "length [JStr ''a.png''] = 1 \<or> printable env0 (from ?r)"
    by simp
  from caption_of_captioned_send[OF req valid image resolved shown, of "''client1''"]
  obtain later where
    "calls (fst (handleReply env0 ''client1'' captioned_body world0)) =
       calls world0 @ [FromUrl (JStr ''a.png'') True,
         SendMessage (JStr ''x'') (Media (png ''a.png'')) (Options [(''caption'', JStr ''look'')])] @ later"
    by auto
  moreover have "length (calls (fst (handleReply env0 ''client1'' captioned_body world0))) = 2"
    using req by (simp add: handleReply_calls dispatch_def resolve_def send_def env0_def world0_def)
  ultimately show ?thesis
    using req resolved by (simp add: world0_def)
qed

theorem empty_caption_counterexample:
  "resolved_request env0 empty_caption_body =
     Inr \<lparr>from = JStr ''x'', reply = JStr ''hi'', imageUrl = JStr ''a.png'', caption = JStr ''''\<rparr>
   \<and> nullish_or (nullish_or (JStr '''') (JStr ''hi'')) (JStr '''') = JStr ''''
   \<and> calls (fst (handleReply env0 ''client1'' empty_caption_body world0)) =
       [FromUrl (JStr ''a.png'') True,
        SendMessage (JStr ''x'') (Media (png ''a.png'')) (Options [(''caption'', JStr ''hi'')])]"
proof -
  have req: "resolved_request env0 empty_caption_body =
     Inr \<lparr>from = JStr ''x'', reply = JStr ''hi'', imageUrl = JStr ''a.png'', caption = JStr ''''\<rparr>"
    by (simp add: empty_caption_body_def resolved_bare_object)
  then show ?thesis
    by (simp add: handleReply_calls dispatch_def resolve_def send_def env0_def png_def
        caption_options_def js_or_def nullish_or_def absent_def world0_def)
qed

text \<open>
  C5, as amended. For a relayed message (not sent by the account itself, the token
  obtained) the calls after the token fetch are, for a message with media that is
  downloaded and hosted: the download, the upload, and one webhook POST whose body is
  exactly the object with the fields \<^verbatim>\<open>from\<close>, \<^verbatim>\<open>imageUrl\<close>,
  \<^verbatim>\<open>mimetype\<close>, \<^verbatim>\<open>text\<close>, \<^verbatim>\<open>access_token\<close> and
  \<^verbatim>\<open>timestamp\<close>, the text being \<^verbatim>\<open>caption || body || ''\<close>; for a
  message without media: one webhook POST whose body is exactly the object with the
  fields \<^verbatim>\<open>from\<close>, \<^verbatim>\<open>text\<close> (the message body),
  \<^verbatim>\<open>access_token\<close> and \<^verbatim>\<open>timestamp\<close>, and no
  \<^verbatim>\<open>imageUrl\<close>. The sender, the hosted URL and, in a text message, the body
  are taken to be defined: \<^verbatim>\<open>JSON.stringify\<close> leaves out a property that is
  \<^verbatim>\<open>undefined\<close>. As stated, with a field \<^verbatim>\<open>accessToken\<close>, the claim
  fails: the code names the field \<^verbatim>\<open>access_token\<close>.
\<close>

theorem webhook_payload:
  assumes relayed: "\<not> fromMe msg"
    and token: "snd (getAccessToken e w) = Inr accessToken"
    and h: "h = calls (fst (getAccessToken e w))"
    and sender: "msg_from msg \<noteq> JUndefined"
    and data_uri: "file = ''data:'' @ mimetype media @ '';base64,'' @ data media"
    and upload_options: "options = [(''folder'', ''wa-inbox-images''), (''resource_type'', ''image'')]"
  shows "(hasMedia msg \<longrightarrow>
            downloadMedia e h msg = Inr (Some media) \<longrightarrow>
            cloudinary_upload e (h @ [DownloadMedia]) file options = Inr upload \<longrightarrow>
            own_prop upload ''secure_url'' \<noteq> JUndefined \<longrightarrow>
            calls (on_message e msg w) =
              h @ [DownloadMedia, CloudinaryUpload file options,
                   WebhookPost (WEBHOOK_URL e)
                     (JObj [(''from'', msg_from msg),
                            (''imageUrl'', own_prop upload ''secure_url''),
                            (''mimetype'', JStr (mimetype media)),
                            (''text'', if truthy (msg_caption msg) then msg_caption msg
                                       else if truthy (msg_body msg) then msg_body msg
                                       else JStr ''''),
                            (''access_token'', accessToken),
                            (''timestamp'',
                               JStr (toISOString e (h @ [DownloadMedia, CloudinaryUpload file options])))])])
     \<and> (\<not> hasMedia msg \<longrightarrow>
            msg_body msg \<noteq> JUndefined \<longrightarrow>
            calls (on_message e msg w) =
              h @ [WebhookPost (WEBHOOK_URL e)
                     (JObj [(''from'', msg_from msg),
                            (''text'', msg_body msg),
                            (''access_token'', accessToken),
                            (''timestamp'', JStr (toISOString e h))])])"
proof -
  let ?w0 = "console_log (LogMessage (msg_from msg) (msg_to msg) (msg_body msg) (msg_timestamp msg)) w"
  obtain w1 where tok0: "getAccessToken e ?w0 = (w1, Inr accessToken)" and w1: "calls w1 = h"
    using getAccessToken_cong[of ?w0 w e] token h
    by (cases "getAccessToken e ?w0") simp
  have defined: "accessToken \<noteq> JUndefined"
    using getAccessToken_truthy[OF token] by auto
  have fallback: "(if truthy (msg_caption msg) then msg_caption msg
                   else if truthy (msg_body msg) then msg_body msg else JStr '''') \<noteq> JUndefined"
    by auto
  have om: "calls (on_message e msg w) = calls (fst (relay e msg ?w0))"
    using relayed by (rule on_message_relay)
  show ?thesis
  proof (intro conjI impI)
    assume "hasMedia msg" and "downloadMedia e h msg = Inr (Some media)"
      and "cloudinary_upload e (h @ [DownloadMedia]) file options = Inr upload"
      and url: "own_prop upload ''secure_url'' \<noteq> JUndefined"
    then have "calls (fst (relay e msg ?w0)) =
      calls w1 @
       [DownloadMedia,
        CloudinaryUpload (''data:'' @ mimetype media @ '';base64,'' @ data media)
          [(''folder'', ''wa-inbox-images''), (''resource_type'', ''image'')],
        WebhookPost (WEBHOOK_URL e)
          (json_object
             [(''from'', msg_from msg),
              (''imageUrl'', own_prop upload ''secure_url''),
              (''mimetype'', JStr (mimetype media)),
              (''text'', js_or (js_or (msg_caption msg) (msg_body msg)) (JStr '''')),
              (''access_token'', accessToken),
              (''timestamp'', JStr (toISOString e (calls w1 @
                 [DownloadMedia,
                  CloudinaryUpload (''data:'' @ mimetype media @ '';base64,'' @ data media)
                    [(''folder'', ''wa-inbox-images''), (''resource_type'', ''image'')]])))])]"
      unfolding data_uri upload_options w1[symmetric]
      by (intro relay_media_calls[OF tok0])
    then show "calls (on_message e msg w) =
              h @ [DownloadMedia, CloudinaryUpload file options,
                   WebhookPost (WEBHOOK_URL e)
                     (JObj [(''from'', msg_from msg),
                            (''imageUrl'', own_prop upload ''secure_url''),
                            (''mimetype'', JStr (mimetype media)),
                            (''text'', if truthy (msg_caption msg) then msg_caption msg
                                       else if truthy (msg_body msg) then msg_body msg
                                       else JStr ''''),
                            (''access_token'', accessToken),
                            (''timestamp'',
                               JStr (toISOString e (h @ [DownloadMedia, CloudinaryUpload file options])))])]"
      unfolding om data_uri upload_options text_fallback
      using sender defined url fallback w1 by (simp add: json_object_def)
  next
    assume "\<not> hasMedia msg" and body: "msg_body msg \<noteq> JUndefined"
    from relay_text_calls[OF tok0 this(1)] show "calls (on_message e msg w) =
              h @ [WebhookPost (WEBHOOK_URL e)
                     (JObj [(''from'', msg_from msg),
                            (''text'', msg_body msg),
                            (''access_token'', accessToken),
                            (''timestamp'', JStr (toISOString e h))])]"
      unfolding om using sender defined body w1 by (simp add: json_object_def)
  qed
qed

theorem webhook_payload_witness:
  "\<not> fromMe media_message \<and> hasMedia media_message \<and> \<not> fromMe text_message \<and> \<not> hasMedia text_message
   \<and> snd (getAccessToken env0 world0) = Inr (JStr ''tok'')
   \<and> calls (on_message env0 media_message world0) =
       [TokenPost token_uri grant_type ''jwt'',
        DownloadMedia,
        CloudinaryUpload ''data:image/jpeg;base64,QUJD''
          [(''folder'', ''wa-inbox-images''), (''resource_type'', ''image'')],
        WebhookPost (JStr ''https://example.com/hook'')
          (JObj [(''from'', JStr ''you@c.us''),
                 (''imageUrl'', JStr ''https://res.example.com/i.png''),
                 (''mimetype'', JStr ''image/jpeg''),
                 (''text'', JStr ''hello''),
                 (''access_token'', JStr ''tok''),
                 (''timestamp'', JStr ''2023-11-14T22:13:20.999Z'')])]
   \<and> calls (on_message env0 text_message world0) =
       [TokenPost token_uri grant_type ''jwt'',
        WebhookPost (JStr ''https://example.com/hook'')
          (JObj [(''from'', JStr ''you@c.us''),
                 (''text'', JStr ''hello''),
                 (''access_token'', JStr ''tok''),
                 (''timestamp'', JStr ''2023-11-14T22:13:20.999Z'')])]"
proof -
  let ?h = "[TokenPost token_uri grant_type ''jwt'']"
  let ?media = "\<lparr>mimetype = ''image/jpeg'', data = ''QUJD''\<rparr>"
  let ?upload = "JObj [(''secure_url'', JStr ''https://res.example.com/i.png'')]"
  have token: "snd (getAccessToken env0 world0) = Inr (JStr ''tok'')"
    by (simp add: getAccessToken_env0)
  have h: "?h = calls (fst (getAccessToken env0 world0))"
    by (simp add: getAccessToken_env0 world0_def)
  have m: "\<not> fromMe media_message" "msg_from media_message \<noteq> JUndefined" "hasMedia media_message"
    by (simp_all add: media_message_def)
  have t: "\<not> fromMe text_message" "msg_from text_message \<noteq> JUndefined" "\<not> hasMedia text_message"
    "msg_body text_message \<noteq> JUndefined"
    by (simp_all add: text_message_def)
  have dl: "downloadMedia env0 ?h media_message = Inr (Some ?media)"
    by simp
  have up: "cloudinary_upload env0 (?h @ [DownloadMedia])
      (''data:'' @ mimetype ?media @ '';base64,'' @ data ?media)
      [(''folder'', ''wa-inbox-images''), (''resource_type'', ''image'')] = Inr ?upload"
    by simp
  have url: "own_prop ?upload ''secure_url'' \<noteq> JUndefined"
    by simp
  have "calls (on_message env0 media_message world0) =
       ?h @ [DownloadMedia,
        CloudinaryUpload (''data:'' @ mimetype ?media @ '';base64,'' @ data ?media)
          [(''folder'', ''wa-inbox-images''), (''resource_type'', ''image'')],
        WebhookPost (WEBHOOK_URL env0)
          (JObj [(''from'', msg_from media_message),
                 (''imageUrl'', own_prop ?upload ''secure_url''),
                 (''mimetype'', JStr (mimetype ?media)),
                 (''text'', if truthy (msg_caption media_message) then msg_caption media_message
                            else if truthy (msg_body media_message) then msg_body media_message
                            else JStr ''''),
                 (''access_token'', JStr ''tok''),
                 (''timestamp'', JStr (toISOString env0 (?h @ [DownloadMedia,
                    CloudinaryUpload (''data:'' @ mimetype ?media @ '';base64,'' @ data ?media)
                      [(''folder'', ''wa-inbox-images''), (''resource_type'', ''image'')]])))])]"
    using webhook_payload[OF m(1) token h m(2) refl refl, of ?media ?upload] m(3) dl up url
    by blast
  moreover have "calls (on_message env0 text_message world0) =
       ?h @ [WebhookPost (WEBHOOK_URL env0)
          (JObj [(''from'', msg_from text_message),
                 (''text'', msg_body text_message),
                 (''access_token'', JStr ''tok''),
                 (''timestamp'', JStr (toISOString env0 ?h))])]"
    using webhook_payload[OF t(1) token h t(2) refl refl, of ?media ?upload] t(3,4)
    by blast
  ultimately show ?thesis
    using token m t by (simp add: media_message_def text_message_def)
qed

theorem access_token_key_counterexample:
  "\<not> fromMe media_message \<and> hasMedia media_message
   \<and> calls (on_message env0 media_message world0) =
       [TokenPost token_uri grant_type ''jwt'',
        DownloadMedia,
        CloudinaryUpload ''data:image/jpeg;base64,QUJD''
          [(''folder'', ''wa-inbox-images''), (''resource_type'', ''image'')],
        WebhookPost (JStr ''https://example.com/hook'')
          (JObj [(''from'', JStr ''you@c.us''),
                 (''imageUrl'', JStr ''https://res.example.com/i.png''),
                 (''mimetype'', JStr ''image/jpeg''),
                 (''text'', JStr ''hello''),
                 (''access_token'', JStr ''tok''),
                 (''timestamp'', JStr ''2023-11-14T22:13:20.999Z'')])]
   \<and> WebhookPost (JStr ''https://example.com/hook'')
         (spec_media_payload (JStr ''you@c.us'') (JStr ''https://res.example.com/i.png'')
            (JStr ''image/jpeg'') (JStr ''hello'') (JStr ''tok'') (JStr ''2023-11-14T22:13:20.999Z''))
       \<notin> set (calls (on_message env0 media_message world0))"
proof -
  have "\<not> fromMe media_message"
    by (simp add: media_message_def)
  then have "calls (on_message env0 media_message world0) =
      calls (fst (relay env0 media_message
        (console_log (LogMessage (msg_from media_message) (msg_to media_message)
           (msg_body media_message) (msg_timestamp media_message)) world0)))"
    by (rule on_message_relay)
  also have "\<dots> = [TokenPost token_uri grant_type ''jwt'',
        DownloadMedia,
        CloudinaryUpload ''data:image/jpeg;base64,QUJD''
          [(''folder'', ''wa-inbox-images''), (''resource_type'', ''image'')],
        WebhookPost (JStr ''https://example.com/hook'')
          (JObj [(''from'', JStr ''you@c.us''),
                 (''imageUrl'', JStr ''https://res.example.com/i.png''),
                 (''mimetype'', JStr ''image/jpeg''),
                 (''text'', JStr ''hello''),
                 (''access_token'', JStr ''tok''),
                 (''timestamp'', JStr ''2023-11-14T22:13:20.999Z'')])]"
    by (simp add: relay_def getAccessToken_env0 Let_def json_object_def js_or_def get_prop_def
        media_message_def world0_def)
  finally show ?thesis
    by (simp add: media_message_def spec_media_payload_def)
qed

text \<open>
  C6, as amended. A reply request whose \<^verbatim>\<open>imageUrl\<close> is an array of exactly
  one URL behaves as the same request with that URL as a plain string: the same outbound
  calls and the same answer. When the request passes the validation these calls are one
  resolution of the URL with \<^verbatim>\<open>unsafeMime\<close> and, when it resolves, one send of
  the media to \<^verbatim>\<open>from\<close> with the caption \<^verbatim>\<open>caption || reply || ''\<close>.
  As stated, with the one send carrying \<^verbatim>\<open>caption ?? reply ?? ''\<close>, the claim
  fails: an empty caption gives way to the reply, in the array branch as in the string
  branch.
\<close>

theorem singleton_array_as_single_url:
  assumes arr: "resolved_request e b1 = Inr (r\<lparr>imageUrl := JArr [JStr u]\<rparr>)"
    and str: "resolved_request e b2 = Inr (r\<lparr>imageUrl := JStr u\<rparr>)"
    and url: "u \<noteq> ''''"
  shows "calls (fst (handleReply e label b1 w)) = calls (fst (handleReply e label b2 w))
     \<and> snd (handleReply e label b1 w) = snd (handleReply e label b2 w)
     \<and> (truthy (from r) \<longrightarrow>
          calls (fst (handleReply e label b2 w)) =
            calls w @ FromUrl (JStr u) True #
              (case fromUrl e (calls w) (JStr u) True of
                 Inl err \<Rightarrow> []
               | Inr media \<Rightarrow>
                   [SendMessage (from r) (Media media)
                      (Options [(''caption'', js_or (js_or (caption r) (reply r)) (JStr ''''))])]))"
proof -
  let ?w1 = "console_log (LogReplyPayload label b1) w"
  let ?w2 = "console_log (LogReplyPayload label b2) w"
  have "dispatch e label (r\<lparr>imageUrl := JArr [JStr u]\<rparr>) ?w1 =
        dispatch e label (r\<lparr>imageUrl := JStr u\<rparr>) ?w1"
    using url by (rule dispatch_singleton)
  moreover have "calls (fst (dispatch e label (r\<lparr>imageUrl := JStr u\<rparr>) ?w1)) =
                 calls (fst (dispatch e label (r\<lparr>imageUrl := JStr u\<rparr>) ?w2)) \<and>
                 snd (dispatch e label (r\<lparr>imageUrl := JStr u\<rparr>) ?w1) =
                 snd (dispatch e label (r\<lparr>imageUrl := JStr u\<rparr>) ?w2)"
    by (rule dispatch_cong) simp
  ultimately have same: "calls (fst (handleReply e label b1 w)) = calls (fst (handleReply e label b2 w))
      \<and> snd (handleReply e label b1 w) = snd (handleReply e label b2 w)"
    using arr str
    by (auto simp add: handleReply_resolved split: prod.splits sum.splits)
  have "calls (fst (handleReply e label b2 w)) =
        calls (fst (dispatch e label (r\<lparr>imageUrl := JStr u\<rparr>) ?w2))"
    using str by (auto simp add: handleReply_resolved split: prod.splits sum.splits)
  with dispatch_single_url[of r u e label ?w2] url same show ?thesis
    by simp
qed

theorem singleton_array_as_single_url_witness:
  "resolved_request env0 (JObj [(''from'', JStr ''x''), (''imageUrl'', JArr [JStr ''a.png''])]) =
     Inr \<lparr>from = JStr ''x'', reply = JUndefined, imageUrl = JArr [JStr ''a.png''], caption = JUndefined\<rparr>
   \<and> resolved_request env0 (JObj [(''from'', JStr ''x''), (''imageUrl'', JStr ''a.png'')]) =
     Inr \<lparr>from = JStr ''x'', reply = JUndefined, imageUrl = JStr ''a.png'', caption = JUndefined\<rparr>
   \<and> calls (fst (handleReply env0 ''client1''
          (JObj [(''from'', JStr ''x''), (''imageUrl'', JArr [JStr ''a.png''])]) world0)) =
       [FromUrl (JStr ''a.png'') True,
        SendMessage (JStr ''x'') (Media (png ''a.png'')) (Options [(''caption'', JStr '''')])]
   \<and> calls (fst (handleReply env0 ''client1''
          (JObj [(''from'', JStr ''x''), (''imageUrl'', JStr ''a.png'')]) world0)) =
       [FromUrl (JStr ''a.png'') True,
        SendMessage (JStr ''x'') (Media (png ''a.png'')) (Options [(''caption'', JStr '''')])]
   \<and> snd (handleReply env0 ''client1''
          (JObj [(''from'', JStr ''x''), (''imageUrl'', JArr [JStr ''a.png''])]) world0) =
     snd (handleReply env0 ''client1''
          (JObj [(''from'', JStr ''x''), (''imageUrl'', JStr ''a.png'')]) world0)"
proof -
  let ?r = "\<lparr>from = JStr ''x'', reply = JUndefined, imageUrl = JUndefined, caption = JUndefined\<rparr>"
  let ?b1 = "JObj [(''from'', JStr ''x''), (''imageUrl'', JArr [JStr ''a.png''])]"
  let ?b2 = "JObj [(''from'', JStr ''x''), (''imageUrl'', JStr ''a.png'')]"
  have arr: "resolved_request env0 ?b1 = Inr (?r\<lparr>imageUrl := JArr [JStr ''a.png'']\<rparr>)"
    by (simp add: resolved_bare_object)
  have str: "resolved_request env0 ?b2 = Inr (?r\<lparr>imageUrl := JStr ''a.png''\<rparr>)"
    by (simp add: resolved_bare_object)
  have url: "''a.png'' \<noteq> ''''"
    by simp
  have media: "fromUrl env0 [] (JStr ''a.png'') True = Inr (png ''a.png'')"
    by (simp add: env0_def png_def)
  from singleton_array_as_single_url[OF arr str url, of "''client1''" world0] arr str media
  show ?thesis
    by (simp add: world0_def js_or_def)
qed

theorem singleton_empty_caption_counterexample:
  "resolved_request env0 singleton_empty_caption_body =
     Inr \<lparr>from = JStr ''x'', reply = JStr ''hi'', imageUrl = JArr [JStr ''a.png''],
          caption = JStr ''''\<rparr>
   \<and> nullish_or (nullish_or (JStr '''') (JStr ''hi'')) (JStr '''') = JStr ''''
   \<and> calls (fst (handleReply env0 ''client1'' singleton_empty_caption_body world0)) =
       [FromUrl (JStr ''a.png'') True,
        SendMessage (JStr ''x'') (Media (png ''a.png'')) (Options [(''caption'', JStr ''hi'')])]"
proof -
  have req: "resolved_request env0 singleton_empty_caption_body =
     Inr \<lparr>from = JStr ''x'', reply = JStr ''hi'', imageUrl = JArr [JStr ''a.png''],
          caption = JStr ''''\<rparr>"
    by (simp add: singleton_empty_caption_body_def resolved_bare_object)
  then show ?thesis
    by (simp add: handleReply_calls dispatch_def resolve_def send_def env0_reply
        caption_options_def js_or_def nullish_or_def absent_def world0_def)
qed

text \<open>
  C7. An inbound message whose \<^verbatim>\<open>fromMe\<close> flag is true is not relayed: the
  handler writes its line to the console and issues no outbound call at all, so no token
  fetch, no media download or upload and no webhook POST.
\<close>

theorem own_messages_not_relayed:
  assumes "fromMe msg"
  shows "calls (on_message e msg w) = calls w
     \<and> console (on_message e msg w) =
         console w @ [LogMessage (msg_from msg) (msg_to msg) (msg_body msg) (msg_timestamp msg)]"
proof -
  have "on_message e msg w =
      console_log (LogMessage (msg_from msg) (msg_to msg) (msg_body msg) (msg_timestamp msg)) w"
    using assms by (simp add: on_message_def)
  then show ?thesis
    by simp
qed

theorem own_messages_not_relayed_witness:
  "fromMe self_message
   \<and> calls (on_message env0 self_message world0) = []
   \<and> console (on_message env0 self_message world0) =
       [LogMessage (JStr ''me@c.us'') (JStr ''you@c.us'') (JStr ''hello'') (JNum 1700000000)]
   \<and> calls (on_message env0 (self_message\<lparr>fromMe := False\<rparr>) world0) \<noteq> []"
proof -
  have own: "fromMe self_message"
    by (simp add: self_message_def)
  have other: "\<not> fromMe (self_message\<lparr>fromMe := False\<rparr>)"
    by simp
  have "calls (on_message env0 (self_message\<lparr>fromMe := False\<rparr>) world0) \<noteq> []"
    unfolding on_message_relay[OF other]
    by (simp add: relay_def getAccessToken_env0 Let_def self_message_def get_prop_def)
  with own_messages_not_relayed[OF own, of env0 world0] own show ?thesis
    by (simp add: self_message_def world0_def)
qed

text \<open>
  C8, as amended. Once the token endpoint has answered with a JSON body,
  \<^verbatim>\<open>getAccessToken\<close> fails if and only if the body's \<^verbatim>\<open>access_token\<close>
  is absent or otherwise falsy (null, the empty string, 0, false); when it fails so and
  \<^verbatim>\<open>error_description\<close> is truthy, the error message is
  \<^verbatim>\<open>Gagal ambil access token: \<close> followed by the description (by the string
  that the template literal of line 63 converts it to: itself, when it is a string; a
  description that is an object with an own \<^verbatim>\<open>toString\<close> makes the conversion
  throw, and the failure is that TypeError); when it succeeds
  it returns the value of \<^verbatim>\<open>access_token\<close>. As stated, with failure only when
  the body has no \<^verbatim>\<open>access_token\<close> field, the claim fails: line 61 tests
  \<^verbatim>\<open>!data.access_token\<close>, and a body whose \<^verbatim>\<open>access_token\<close> is the
  empty string has the field and is refused.
\<close>

theorem access_token_or_failure:
  assumes sign: "jwt_sign e (claim_set e (Date_now e (calls w) div 1000))
                   (private_key (serviceAccount e)) = Inr jwtToken"
    and answer: "token_fetch e (calls w) token_uri grant_type jwtToken = Inr d"
  shows "((\<exists>err. snd (getAccessToken e w) = Inl err) \<longleftrightarrow> \<not> truthy (own_prop d ''access_token''))
     \<and> (\<not> truthy (own_prop d ''access_token'') \<longrightarrow> truthy (own_prop d ''error_description'') \<longrightarrow>
          snd (getAccessToken e w) =
            (case template e (own_prop d ''error_description'') of
               Inl err \<Rightarrow> Inl err
             | Inr description \<Rightarrow> Inl (Error (''Gagal ambil access token: '' @ description))))
     \<and> (\<not> truthy (own_prop d ''access_token'') \<longrightarrow>
          own_prop d ''error_description'' = JStr s \<longrightarrow> s \<noteq> '''' \<longrightarrow>
          snd (getAccessToken e w) = Inl (Error (''Gagal ambil access token: '' @ s)))
     \<and> (truthy (own_prop d ''access_token'') \<longrightarrow>
          snd (getAccessToken e w) = Inr (own_prop d ''access_token''))"
proof -
  have "snd (getAccessToken e w) =
        snd (check_access_token e d (issue (TokenPost token_uri grant_type jwtToken) w))"
    using sign answer by (simp add: getAccessToken_def)
  then show ?thesis
    by (cases d)
      (auto simp add: check_access_token_result js_or_def template_def split: sum.splits)
qed

theorem access_token_or_failure_witness:
  "jwt_sign env0 (claim_set env0 (Date_now env0 (calls world0) div 1000))
     (private_key (serviceAccount env0)) = Inr ''jwt''
   \<and> token_fetch env0 (calls world0) token_uri grant_type ''jwt'' =
       Inr (JObj [(''access_token'', JStr ''tok'')])
   \<and> getAccessToken env0 world0 =
       (\<lparr>calls = [TokenPost token_uri grant_type ''jwt''], console = []\<rparr>, Inr (JStr ''tok''))
   \<and> token_fetch env_invalid_grant (calls world0) token_uri grant_type ''jwt'' =
       Inr (JObj [(''error'', JStr ''invalid_grant''),
                  (''error_description'', JStr ''Invalid JWT Signature.'')])
   \<and> snd (getAccessToken env_invalid_grant world0) =
       Inl (Error ''Gagal ambil access token: Invalid JWT Signature.'')"
proof -
  have sign: "jwt_sign env0 (claim_set env0 (Date_now env0 (calls world0) div 1000))
     (private_key (serviceAccount env0)) = Inr ''jwt''"
    by (simp add: env0_def)
  have answer: "token_fetch env0 (calls world0) token_uri grant_type ''jwt'' =
       Inr (JObj [(''access_token'', JStr ''tok'')])"
    by (simp add: env0_def)
  have sign': "jwt_sign env_invalid_grant
      (claim_set env_invalid_grant (Date_now env_invalid_grant (calls world0) div 1000))
      (private_key (serviceAccount env_invalid_grant)) = Inr ''jwt''"
    by (simp add: env_invalid_grant_def env0_def)
  have answer': "token_fetch env_invalid_grant (calls world0) token_uri grant_type ''jwt'' =
       Inr (JObj [(''error'', JStr ''invalid_grant''),
                  (''error_description'', JStr ''Invalid JWT Signature.'')])"
    by (simp add: env_invalid_grant_def)
  have refused: "snd (getAccessToken env_invalid_grant world0) =
       Inl (Error ''Gagal ambil access token: Invalid JWT Signature.'')"
    using access_token_or_failure[OF sign' answer'] by (simp add: template_def)
  from access_token_or_failure[OF sign answer] sign answer answer' refused show ?thesis
    by (simp add: getAccessToken_def check_access_token_def get_prop_def world0_def issue_def)
qed

theorem empty_access_token_counterexample:
  "token_fetch env_empty_token (calls world0) token_uri grant_type ''jwt'' =
     Inr (JObj [(''access_token'', JStr '''')])
   \<and> map_of [(''access_token'', JStr '''')] ''access_token'' = Some (JStr '''')
   \<and> \<not> absent (own_prop (JObj [(''access_token'', JStr '''')]) ''access_token'')
   \<and> snd (getAccessToken env_empty_token world0) =
       Inl (Error (''Gagal ambil access token: '' @
         JSON_stringify env_empty_token (JObj [(''access_token'', JStr '''')])))"
  by (simp add: env_empty_token_def env0_def getAccessToken_def check_access_token_def
      get_prop_def js_or_def template_def absent_def)

text \<open>
  C9. The claim says that a failure of the rendering or of the hosting of the pairing
  code is caught and logged inside the handler and does not leave it. The listener of
  lines 84 to 93 has no \<^verbatim>\<open>try\<close>: when the upload is rejected, or the rendering
  fails, the promise of the listener is rejected with the same error, and the console
  holds the line of the scan only. The other handlers of the file catch and log what
  they await: the message handler (lines 117 to 157), \<^verbatim>\<open>handleReply\<close> (lines
  167 to 210) and \<^verbatim>\<open>startBot\<close> (lines 225 to 231).
\<close>

theorem qr_upload_failure_propagates:
  "setupQR env_upload_fails ''client1'' ''2@abc'' world0 =
     (\<lparr>calls = [CloudinaryUpload ''data:image/png;base64,2@abc''
                  [(''folder'', ''whatsapp_qrcodes''), (''public_id'', ''qr_client1''),
                   (''resource_type'', ''image'')]],
       console = [LogQrScan ''client1'']\<rparr>,
      Some (Error ''upload failed''))
   \<and> setupQR env_render_fails ''client1'' ''2@abc'' world0 =
     (\<lparr>calls = [], console = [LogQrScan ''client1'']\<rparr>, Some (Error ''render failed''))"
  by (simp add: setupQR_def env_upload_fails_def env_render_fails_def env0_def world0_def
      issue_def console_log_def)

text \<open>
  C10, as amended. A reply request whose \<^verbatim>\<open>from\<close> is truthy (present and
  not empty) and can be converted to a string by the template literal of line 192 (as
  every non-empty string can), and whose \<^verbatim>\<open>imageUrl\<close> is the empty array,
  with or without \<^verbatim>\<open>reply\<close>, passes the validation, issues no call and is
  answered with HTTP 200 and \<^verbatim>\<open>{success: true}\<close>. As stated, for every
  \<^verbatim>\<open>from\<close> that is present, the claim fails: the empty string is present and
  is rejected with HTTP 400 by the test \<^verbatim>\<open>!from\<close> of line 177; and an object
  with an own \<^verbatim>\<open>toString\<close> is present and passes the validation, but the log
  line of line 192 throws on it and the answer is HTTP 500.
\<close>

theorem empty_image_array_succeeds:
  assumes "resolved_request e b = Inr r"
    and "truthy (from r)"
    and "printable e (from r)"
    and "imageUrl r = JArr []"
  shows "snd (handleReply e label b w) =
           \<lparr>status = 200, body = JObj [(''success'', JBool True)]\<rparr>
         \<and> calls (fst (handleReply e label b w)) = calls w"
proof -
  from assms(3) obtain shown where "template e (from r) = Inr shown"
    by (auto simp add: printable_iff)
  with assms(1,2,4) show ?thesis
    by (simp add: handleReply_resolved dispatch_empty_array success_response_def)
qed

theorem empty_image_array_succeeds_witness:
  "resolved_request env0 (JObj [(''from'', JStr ''x''), (''imageUrl'', JArr [])]) =
     Inr \<lparr>from = JStr ''x'', reply = JUndefined, imageUrl = JArr [], caption = JUndefined\<rparr>
   \<and> truthy (JStr ''x'')
   \<and> printable env0 (JStr ''x'')
   \<and> snd (handleReply env0 ''client1'' (JObj [(''from'', JStr ''x''), (''imageUrl'', JArr [])]) world0) =
       \<lparr>status = 200, body = JObj [(''success'', JBool True)]\<rparr>
   \<and> calls (fst (handleReply env0 ''client1'' (JObj [(''from'', JStr ''x''), (''imageUrl'', JArr [])]) world0)) = []"
proof -
  let ?b = "JObj [(''from'', JStr ''x''), (''imageUrl'', JArr [])]"
  let ?r = "\<lparr>from = JStr ''x'', reply = JUndefined, imageUrl = JArr [], caption = JUndefined\<rparr>"
  have req: "resolved_request env0 ?b = Inr ?r"
    by (simp add: resolved_bare_object)
  have "truthy (from ?r)" "printable env0 (from ?r)" "imageUrl ?r = JArr []"
    by simp_all
  from empty_image_array_succeeds[OF req this, of "''client1''" world0] req show ?thesis
    by (simp add: world0_def)
qed

theorem empty_from_counterexample:
  "(resolved_request env0 empty_from_body =
      Inr \<lparr>from = JStr '''', reply = JUndefined, imageUrl = JArr [], caption = JUndefined\<rparr>
    \<and> \<not> absent (JStr '''')
    \<and> snd (handleReply env0 ''client1'' empty_from_body world0) =
        \<lparr>status = 400, body = JObj [(''error'', JStr ''from dan reply/imageUrl wajib'')]\<rparr>)
   \<and> (resolved_request env0 unprintable_from_body =
        Inr \<lparr>from = unprintable_from, reply = JUndefined, imageUrl = JArr [], caption = JUndefined\<rparr>
      \<and> \<not> absent unprintable_from
      \<and> truthy unprintable_from
      \<and> snd (handleReply env0 ''client1'' unprintable_from_body world0) =
          \<lparr>status = 500,
           body = JObj [(''error'', JStr ''Gagal balas''),
                        (''detail'', JStr ''Cannot convert object to primitive value'')]\<rparr>)"
proof -
  have empty: "resolved_request env0 empty_from_body =
      Inr \<lparr>from = JStr '''', reply = JUndefined, imageUrl = JArr [], caption = JUndefined\<rparr>"
    by (simp add: empty_from_body_def resolved_bare_object)
  then have rejected: "snd (handleReply env0 ''client1'' empty_from_body world0) =
        \<lparr>status = 400, body = JObj [(''error'', JStr ''from dan reply/imageUrl wajib'')]\<rparr>"
    by (simp add: handleReply_resolved dispatch_invalid validation_response_def)
  have unprintable: "resolved_request env0 unprintable_from_body =
      Inr \<lparr>from = unprintable_from, reply = JUndefined, imageUrl = JArr [], caption = JUndefined\<rparr>"
    by (simp add: unprintable_from_body_def unprintable_from_def resolved_bare_object)
  have thrown: "template env0 unprintable_from =
      Inl (TypeError ''Cannot convert object to primitive value'')"
    by (simp add: template_def unprintable_from_def)
  have "snd (handleReply env0 ''client1'' unprintable_from_body world0) =
          \<lparr>status = 500,
           body = JObj [(''error'', JStr ''Gagal balas''),
                        (''detail'', JStr ''Cannot convert object to primitive value'')]\<rparr>"
    using unprintable thrown
    by (simp add: handleReply_resolved dispatch_def promise_all_def unprintable_from_def)
  with empty rejected unprintable show ?thesis
    by (simp add: absent_def unprintable_from_def)
qed

end
